theory Spec2Isabelle
  imports Main
begin

section \<open>Python values used by the client\<close>

text \<open>
  The development embeds \<^verbatim>\<open>src/magento/clients.py\<close>: the classes \<^verbatim>\<open>Client\<close>
  (authentication, request dispatch, endpoint routing) and \<^verbatim>\<open>Store\<close> (memoized store
  configuration). Strings are ASCII strings; \<^verbatim>\<open>str.upper\<close> and \<^verbatim>\<open>str.lower\<close> change
  the 26 letters and nothing else.
\<close>

definition upper_char :: "char \<Rightarrow> char" where
  "upper_char c =
     (case map_of (zip ''abcdefghijklmnopqrstuvwxyz'' ''ABCDEFGHIJKLMNOPQRSTUVWXYZ'') c of
        Some u \<Rightarrow> u
      | None \<Rightarrow> c)"

definition lower_char :: "char \<Rightarrow> char" where
  "lower_char c =
     (case map_of (zip ''ABCDEFGHIJKLMNOPQRSTUVWXYZ'' ''abcdefghijklmnopqrstuvwxyz'') c of
        Some l \<Rightarrow> l
      | None \<Rightarrow> c)"

definition upper :: "string \<Rightarrow> string" where
  "upper s = map upper_char s"

definition lower :: "string \<Rightarrow> string" where
  "lower s = map lower_char s"

text \<open>\<^verbatim>\<open>sub in s\<close> on strings: \<open>sub\<close> occurs in \<open>s\<close> as a contiguous run.\<close>

fun starts_with :: "string \<Rightarrow> string \<Rightarrow> bool" where
  "starts_with [] s = True"
| "starts_with (p # ps) [] = False"
| "starts_with (p # ps) (x # xs) = (p = x \<and> starts_with ps xs)"

fun contains :: "string \<Rightarrow> string \<Rightarrow> bool" where
  "contains sub [] = (sub = [])"
| "contains sub (x # xs) = (starts_with sub (x # xs) \<or> contains sub xs)"

text \<open>
  \<^verbatim>\<open>s.replace(old, new)\<close> for a non-empty \<open>old\<close>: every occurrence, left to right,
  without overlap. The source calls it with \<^verbatim>\<open>'/V1'\<close> only.
\<close>

fun replace :: "string \<Rightarrow> string \<Rightarrow> string \<Rightarrow> string" where
  "replace old new [] = []"
| "replace old new (x # xs) =
     (if old \<noteq> [] \<and> take (length old) (x # xs) = old
      then new @ replace old new (drop (length old) (x # xs))
      else x # replace old new xs)"

text \<open>Truth value of an \<^verbatim>\<open>Optional[str]\<close>, and its \<^verbatim>\<open>str()\<close> as an f-string prints it.\<close>

definition truthy :: "string option \<Rightarrow> bool" where
  "truthy t = (t \<noteq> None \<and> t \<noteq> Some [])"

definition str :: "string option \<Rightarrow> string" where
  "str t = (case t of None \<Rightarrow> ''None'' | Some s \<Rightarrow> s)"

text \<open>
  An instance attribute that \<^verbatim>\<open>hasattr\<close> may not find: \<open>Absent\<close> before the first
  assignment and after \<^verbatim>\<open>del\<close>.
\<close>

datatype 'a slot = Absent | Present 'a

section \<open>Data model\<close>

text \<open>
  Modelled from the spec: \<^verbatim>\<open>constants.py\<close> is not among the sources. The spec names the
  two authentication methods (password, API key), the three attribute scopes (global, website,
  store view) and the store codes \<^verbatim>\<open>"default"\<close> and \<^verbatim>\<open>"all"\<close>.
\<close>

datatype AuthenticationMethod = PASSWORD | TOKEN

datatype Scope = GLOBAL | WEBSITE | STORE

definition StoreCode_DEFAULT :: string where
  "StoreCode_DEFAULT = ''default''"

definition StoreCode_ALL :: string where
  "StoreCode_ALL = ''all''"

text \<open>
  Modelled from the spec: the model classes are not among the sources. A store configuration
  is a record keyed by a string code and a numeric id; a product attribute carries its
  attribute code and its scope; a product is known by its identifier.
\<close>

record APIResponse =
  code :: string
  id' :: int

record ProductAttribute =
  attribute_code :: string
  scope_attr :: Scope

datatype Product = Product (sku: string)

text \<open>A JSON payload: a dict from keys to strings or \<^verbatim>\<open>None\<close>, in insertion order.\<close>

type_synonym payload = "(string \<times> string option) list"

record http_request =
  method_arg :: string
  url_arg :: string
  json_arg :: "payload option"
  headers_arg :: "(string \<times> string) list"

text \<open>
  A response, as far as the client reads it: the status code and the decoded body
  (\<^verbatim>\<open>response.json()\<close>, a bare string token for the login endpoint).
\<close>

record response =
  status_code :: int
  json :: "string option"

definition ok :: "response \<Rightarrow> bool" where
  "ok r = (\<not> (400 \<le> status_code r \<and> status_code r < 600))"

text \<open>
  The server answers the request that was sent last, knowing every request sent before:
  it is given the requests sent so far, oldest first, the current one last.
\<close>

type_synonym server = "http_request list \<Rightarrow> response"

datatype py_error =
    ValueError string
  | AttributeError string
  | AuthenticationError "string option" "response option"
  | IndexError
  | RetryError

text \<open>The records the client hands to its logger, by message template.\<close>

datatype log_record =
    Authenticating "string option" string
  | Validating_token
  | Token_validated "string option" string
  | Authenticated_successfully string
  | Attempting_to_reauthenticate
  | Request_failed string int

text \<open>The objects \<^verbatim>\<open>Client.manager\<close> returns, by class and constructor argument.\<close>

datatype handler =
    OrderManager
  | OrderItemManager
  | InvoiceManager
  | TaxClassManager
  | CategoryManager
  | ProductManager
  | ProductAttributeManager
  | AttributeSetManager
  | ShipmentManager
  | CustomerManager
  | ProductAttributeOptionManager "ProductAttribute option"
  | MediaEntryManager "Product option"
  | Manager string

text \<open>
  The state of a \<^verbatim>\<open>Client\<close>. \<open>sent\<close> is not a field of the class: it records the
  requests that left the client (through \<^verbatim>\<open>requests.post\<close> and through the session),
  oldest first. \<open>log\<close> holds what the logger received. The four \<open>priv\<close> fields are the
  attributes whose Python names start with an underscore.
\<close>

record client =
  BASE_URL :: string
  username :: "string option"
  password :: "string option"
  api_key :: "string option"
  authentication_method :: AuthenticationMethod
  domain :: string
  scope :: string
  user_agent :: string
  authentication_retries :: int
  ACCESS_TOKEN :: "string option slot"
  priv_product_attribute_options_attribute :: "ProductAttribute option slot"
  priv_product_attribute_options :: "handler option slot"
  priv_media_entries_product :: "Product option slot"
  priv_media_entry_manager :: "handler option slot"
  sent :: "http_request list"
  log :: "log_record list"

text \<open>
  What a call leaves behind: the exception it raised or the value it returned, and the client
  after it. \<open>None\<close> stands for a call that did not come back within the call depth it was
  given.
\<close>

type_synonym 'a outcome = "((py_error + 'a) \<times> client) option"

section \<open>Requests and authentication\<close>

definition url_for :: "client \<Rightarrow> string \<Rightarrow> string option \<Rightarrow> string" where
  "url_for c endpoint scope_arg =
     (if \<not> truthy scope_arg then
        (if scope c \<noteq> [] \<and> scope_arg = None
         then replace ''/V1'' (''/'' @ scope c @ ''/V1'') (BASE_URL c) @ endpoint
         else BASE_URL c @ endpoint)
      else replace ''/V1'' (''/'' @ str scope_arg @ ''/V1'') (BASE_URL c) @ endpoint)"

definition logger :: "log_record \<Rightarrow> client \<Rightarrow> client" where
  "logger r c = c\<lparr>log := log c @ [r]\<rparr>"

text \<open>One HTTP exchange: the request is recorded and the server's answer comes back.\<close>

definition transport :: "server \<Rightarrow> http_request \<Rightarrow> client \<Rightarrow> response \<times> client" where
  "transport srv rq c = (let c' = c\<lparr>sent := sent c @ [rq]\<rparr> in (srv (sent c'), c'))"

text \<open>
  The session of the client. Its constructor mounts, for urls that start with
  \<^verbatim>\<open>https://\<close>, an adapter with \<^verbatim>\<open>Retry(total=3, status_forcelist=[502, 503, 504],
  allowed_methods={'POST', 'PUT'})\<close>: a \<^verbatim>\<open>POST\<close> or \<^verbatim>\<open>PUT\<close> answered with one of these
  statuses is sent again, up to three more times, and when the last of them is answered so
  as well the session raises \<^verbatim>\<open>RetryError\<close>. Every other exchange is a single one. The
  backoff between the sends is time and is left out. \<^verbatim>\<open>requests.post\<close>, which the login
  uses, does not go through the session.
\<close>

definition Retry_total :: nat where
  "Retry_total = 3"

definition status_forcelist :: "int list" where
  "status_forcelist = [502, 503, 504]"

definition allowed_methods :: "string list" where
  "allowed_methods = [''POST'', ''PUT'']"

definition mounted :: "string \<Rightarrow> bool" where
  "mounted u = starts_with ''https://'' (lower u)"

fun session_request ::
    "nat \<Rightarrow> server \<Rightarrow> http_request \<Rightarrow> client \<Rightarrow> (py_error + response) \<times> client" where
  "session_request 0 srv rq c =
     (case transport srv rq c of
        (resp, c1) \<Rightarrow>
          if mounted (url_arg rq) \<and> method_arg rq \<in> set allowed_methods
             \<and> status_code resp \<in> set status_forcelist
          then (Inl RetryError, c1)
          else (Inr resp, c1))"
| "session_request (Suc k) srv rq c =
     (case transport srv rq c of
        (resp, c1) \<Rightarrow>
          if mounted (url_arg rq) \<and> method_arg rq \<in> set allowed_methods
             \<and> status_code resp \<in> set status_forcelist
          then session_request k srv rq c1
          else (Inr resp, c1))"

text \<open>The dict the \<^verbatim>\<open>headers\<close> property builds around the token.\<close>

definition headers :: "string option \<Rightarrow> client \<Rightarrow> (string \<times> string) list" where
  "headers t c =
     [(''Authorization'', ''Bearer '' @ str t),
      (''Content-Type'', ''application/json''),
      (''User-Agent'', user_agent c)]"

definition USER_CREDENTIALS :: "client \<Rightarrow> payload" where
  "USER_CREDENTIALS c = [(''username'', username c), (''password'', password c)]"

text \<open>
  \<^verbatim>\<open>authenticate\<close>, \<^verbatim>\<open>validate\<close>, \<^verbatim>\<open>request\<close> and the \<^verbatim>\<open>token\<close> property
  call one another: \<^verbatim>\<open>request\<close> authenticates again on a 401 and then calls itself,
  \<^verbatim>\<open>token\<close> authenticates when no token is stored, \<^verbatim>\<open>authenticate\<close> validates through
  \<^verbatim>\<open>request\<close>. The first argument bounds the depth of these calls. \<^verbatim>\<open>validate\<close> goes
  through \<^verbatim>\<open>get\<close>, which is \<^verbatim>\<open>request('GET', url)\<close>; \<^verbatim>\<open>request\<close> reads
  \<^verbatim>\<open>self.headers\<close>, which reads \<^verbatim>\<open>self.token\<close>, before it sends. The constructor
  does not assign \<^verbatim>\<open>ACCESS_TOKEN\<close>: reading it before the first authentication raises
  Python's own \<^verbatim>\<open>AttributeError\<close>, given here by the name of the attribute. The decorator
  of \<^verbatim>\<open>request\<close> reruns it on a JSON decoding error, which no response of this model
  raises; the logger and the exception classes only record what they are given.
\<close>

fun authenticate :: "nat \<Rightarrow> server \<Rightarrow> client \<Rightarrow> bool outcome"
  and validate :: "nat \<Rightarrow> server \<Rightarrow> client \<Rightarrow> bool outcome"
  and request :: "nat \<Rightarrow> server \<Rightarrow> client \<Rightarrow> string \<Rightarrow> string \<Rightarrow> payload option \<Rightarrow> response outcome"
  and token :: "nat \<Rightarrow> server \<Rightarrow> client \<Rightarrow> string option outcome"
where
  "authenticate 0 srv c = None"
| "authenticate (Suc n) srv c =
     (if authentication_retries c = 3
      then Some (Inl (ValueError ''Max attends of authentication attempts exceeded''), c)
      else
        let c1 = c\<lparr>authentication_retries := authentication_retries c + 1\<rparr> in
        if password c1 = None \<and> api_key c1 = None
        then Some (Inl (ValueError ''Ether password or api key must be provided.''), c1)
        else
          (case
             (if authentication_method c1 = TOKEN
              then (Inr (), c1\<lparr>ACCESS_TOKEN := Present (api_key c1)\<rparr>)
              else
                let endpoint = url_for c1 ''integration/admin/token'' None;
                    hdrs = [(''Content-Type'', ''application/json''), (''User-Agent'', user_agent c1)];
                    c2 = logger (Authenticating (username c1) (domain c1)) c1;
                    (resp, c3) = transport srv
                      \<lparr>method_arg = ''POST'', url_arg = endpoint, json_arg = Some (USER_CREDENTIALS c1),
                       headers_arg = hdrs\<rparr> c2
                in if ok resp
                   then (Inr (), c3\<lparr>ACCESS_TOKEN := Present (json resp)\<rparr>)
                   else (Inl (AuthenticationError None (Some resp)), c3))
           of
             (Inl e, c4) \<Rightarrow> Some (Inl e, c4)
           | (Inr u, c4) \<Rightarrow>
               (case validate n srv (logger Validating_token c4) of
                  None \<Rightarrow> None
                | Some (Inl e, c5) \<Rightarrow>
                    (case e of
                       AuthenticationError m r \<Rightarrow>
                         Some (Inl (AuthenticationError (Some ''Token validation failed'') None), c5)
                     | _ \<Rightarrow> Some (Inl e, c5))
                | Some (Inr v, c5) \<Rightarrow>
                    Some (Inr True,
                      (logger (Authenticated_successfully (domain c5)) c5)
                        \<lparr>authentication_retries := 0\<rparr>))))"
| "validate 0 srv c = None"
| "validate (Suc n) srv c =
     (case request n srv c ''GET'' (url_for c ''store/websites'' None) None of
        None \<Rightarrow> None
      | Some (Inl e, c1) \<Rightarrow> Some (Inl e, c1)
      | Some (Inr resp, c1) \<Rightarrow>
          if status_code resp = 200
          then Some (Inr True, logger (Token_validated (username c1) (domain c1)) c1)
          else Some (Inl (AuthenticationError
                 (Some (''Token validation failed for '' @ str (username c1) @ '' on '' @ domain c1))
                 (Some resp)), c1))"
| "request 0 srv c method0 url0 payload0 = None"
| "request (Suc n) srv c method0 url0 payload0 =
     (let method1 = upper method0 in
      case
        (if method1 = ''GET'' \<or> method1 = ''DELETE'' then
           (case token n srv c of
              None \<Rightarrow> None
            | Some (Inl e, c1) \<Rightarrow> Some (Inl e, c1)
            | Some (Inr t, c1) \<Rightarrow>
                Some (session_request Retry_total srv
                  \<lparr>method_arg = method1, url_arg = url0, json_arg = None,
                   headers_arg = headers t c1\<rparr> c1))
         else if method1 = ''POST'' \<or> method1 = ''PUT'' then
           (if payload0 \<noteq> None \<and> payload0 \<noteq> Some [] then
              (case token n srv c of
                 None \<Rightarrow> None
               | Some (Inl e, c1) \<Rightarrow> Some (Inl e, c1)
               | Some (Inr t, c1) \<Rightarrow>
                   Some (session_request Retry_total srv
                     \<lparr>method_arg = method1, url_arg = url0, json_arg = payload0,
                      headers_arg = headers t c1\<rparr> c1))
            else Some (Inl (ValueError ''Must provide a non-empty payload''), c))
         else Some (Inl (ValueError ''Invalid request method provided''), c))
      of
        None \<Rightarrow> None
      | Some (Inl e, c2) \<Rightarrow> Some (Inl e, c2)
      | Some (Inr resp, c2) \<Rightarrow>
          if status_code resp = 401 then
            (case authenticate n srv (logger Attempting_to_reauthenticate c2) of
               None \<Rightarrow> None
             | Some (Inl e, c3) \<Rightarrow> Some (Inl e, c3)
             | Some (Inr b, c3) \<Rightarrow> request n srv c3 method1 url0 payload0)
          else if status_code resp \<noteq> 200
          then Some (Inr resp, logger (Request_failed url0 (status_code resp)) c2)
          else Some (Inr resp, c2))"
| "token 0 srv c = None"
| "token (Suc n) srv c =
     (case ACCESS_TOKEN c of
        Absent \<Rightarrow> Some (Inl (AttributeError ''ACCESS_TOKEN''), c)
      | Present t \<Rightarrow>
          if \<not> truthy t then
            (case authenticate n srv c of
               None \<Rightarrow> None
             | Some (Inl e, c1) \<Rightarrow> Some (Inl e, c1)
             | Some (Inr b, c1) \<Rightarrow>
                 (case ACCESS_TOKEN c1 of
                    Absent \<Rightarrow> Some (Inl (AttributeError ''ACCESS_TOKEN''), c1)
                  | Present t1 \<Rightarrow> Some (Inr t1, c1)))
          else Some (Inr t, c))"

section \<open>Endpoint routing\<close>

text \<open>
  The manager classes are not among the sources; constructing one is taken to return the
  object without raising and without touching the client.
\<close>

definition product_attribute_options_attribute :: "client \<Rightarrow> ProductAttribute option" where
  "product_attribute_options_attribute c =
     (case priv_product_attribute_options_attribute c of
        Present a \<Rightarrow> a
      | Absent \<Rightarrow> None)"

definition set_product_attribute_options_attribute ::
    "ProductAttribute option \<Rightarrow> client \<Rightarrow> client" where
  "set_product_attribute_options_attribute attribute c =
     c\<lparr>priv_product_attribute_options := Absent,
       priv_product_attribute_options_attribute := Present attribute\<rparr>"

definition product_attribute_options :: "client \<Rightarrow> (py_error + handler) \<times> client" where
  "product_attribute_options c =
     (if (priv_product_attribute_options c = Absent \<or> priv_product_attribute_options c = Present None)
         \<and> (priv_product_attribute_options_attribute c = Absent
              \<or> priv_product_attribute_options_attribute c = Present None)
      then (Inl (AttributeError
        ''Attribute was not set for this manager to work. Please set `product_attribute_options_attribute` first.''), c)
      else
        (case priv_product_attribute_options_attribute c of
           Absent \<Rightarrow> (Inl (AttributeError ''_product_attribute_options_attribute''), c)
         | Present a \<Rightarrow>
             let m = ProductAttributeOptionManager a
             in (Inr m, c\<lparr>priv_product_attribute_options := Present (Some m)\<rparr>)))"

definition media_entries_product :: "client \<Rightarrow> Product option" where
  "media_entries_product c =
     (case priv_media_entries_product c of
        Present p \<Rightarrow> p
      | Absent \<Rightarrow> None)"

definition set_media_entries_product :: "Product option \<Rightarrow> client \<Rightarrow> client" where
  "set_media_entries_product product c =
     c\<lparr>priv_media_entry_manager := Absent, priv_media_entries_product := Present product\<rparr>"

definition product_media_entries :: "client \<Rightarrow> (py_error + handler) \<times> client" where
  "product_media_entries c =
     (if (priv_media_entry_manager c = Absent \<or> priv_media_entry_manager c = Present None)
         \<and> (priv_media_entries_product c = Absent \<or> priv_media_entries_product c = Present None)
      then (Inl (AttributeError
        ''Product was not set for this manager to work. Please set `media_entries_product` first.''), c)
      else
        (case priv_media_entries_product c of
           Absent \<Rightarrow> (Inl (AttributeError ''_media_entries_product''), c)
         | Present p \<Rightarrow>
             let m = MediaEntryManager p
             in (Inr m, c\<lparr>priv_media_entry_manager := Present (Some m)\<rparr>)))"

definition manager :: "client \<Rightarrow> string \<Rightarrow> (py_error + handler) \<times> client" where
  "manager c endpoint =
     (let e = lower endpoint in
      if e = ''orders'' then (Inr OrderManager, c)
      else if e = ''orders/items'' then (Inr OrderItemManager, c)
      else if e = ''invoices'' then (Inr InvoiceManager, c)
      else if e = ''taxes'' then (Inr TaxClassManager, c)
      else if e = ''categories'' then (Inr CategoryManager, c)
      else if e = ''products'' then (Inr ProductManager, c)
      else if e = ''products/attributes'' then (Inr ProductAttributeManager, c)
      else if e = ''products/attribute-sets'' \<or> e = ''products/attribute-sets/list''
        then (Inr AttributeSetManager, c)
      else if e = ''shipment'' \<or> e = ''shipments'' then (Inr ShipmentManager, c)
      else if e = ''customers'' \<or> e = ''customers/search'' then (Inr CustomerManager, c)
      else if contains ''products/attributes'' e \<and> contains ''/options'' e
        then product_attribute_options c
      else if contains ''products/'' e \<and> contains ''/media'' e
        then product_media_entries c
      else (Inr (Manager endpoint), c))"

section \<open>The store and its memoized properties\<close>

text \<open>
  A \<^verbatim>\<open>cached_property\<close> keeps its value in the object's \<^verbatim>\<open>__dict__\<close> under its own
  name; the \<open>cached\<close> fields are these entries, \<open>None\<close> when the entry is missing.
  \<open>searches\<close> is not a field of the class: it records the endpoints fetched through a
  manager, oldest first.
\<close>

record Store =
  cached_configs :: "APIResponse list option"
  cached_views :: "APIResponse list option"
  cached_websites :: "APIResponse list option"
  cached_all_product_attributes :: "ProductAttribute list option"
  cached_store_view_product_attributes :: "ProductAttribute list option"
  cached_website_product_attributes :: "ProductAttribute list option"
  cached_global_product_attributes :: "ProductAttribute list option"
  cached_website_attribute_codes :: "string list option"
  searches :: "string list"

text \<open>
  Modelled from the spec: the managers behind \<^verbatim>\<open>execute_search\<close> and
  \<^verbatim>\<open>all_in_memory\<close> are not among the sources; they fetch a list of records from the API.
  What a fetch returns may depend on every fetch made so far (given oldest first, the current
  one last).
\<close>

record remote =
  execute_search :: "string list \<Rightarrow> APIResponse list"
  all_in_memory :: "string list \<Rightarrow> ProductAttribute list"

definition configs :: "remote \<Rightarrow> Store \<Rightarrow> APIResponse list \<times> Store" where
  "configs rem s =
     (case cached_configs s of
        Some v \<Rightarrow> (v, s)
      | None \<Rightarrow>
          let s1 = s\<lparr>searches := searches s @ [''store/storeConfigs'']\<rparr>;
              v = execute_search rem (searches s1)
          in (v, s1\<lparr>cached_configs := Some v\<rparr>))"

definition views :: "remote \<Rightarrow> Store \<Rightarrow> APIResponse list \<times> Store" where
  "views rem s =
     (case cached_views s of
        Some v \<Rightarrow> (v, s)
      | None \<Rightarrow>
          let s1 = s\<lparr>searches := searches s @ [''store/storeViews'']\<rparr>;
              v = execute_search rem (searches s1)
          in (v, s1\<lparr>cached_views := Some v\<rparr>))"

definition websites :: "remote \<Rightarrow> Store \<Rightarrow> APIResponse list \<times> Store" where
  "websites rem s =
     (case cached_websites s of
        Some v \<Rightarrow> (v, s)
      | None \<Rightarrow>
          let s1 = s\<lparr>searches := searches s @ [''store/websites'']\<rparr>;
              v = execute_search rem (searches s1)
          in (v, s1\<lparr>cached_websites := Some v\<rparr>))"

definition all_product_attributes :: "remote \<Rightarrow> Store \<Rightarrow> ProductAttribute list \<times> Store" where
  "all_product_attributes rem s =
     (case cached_all_product_attributes s of
        Some v \<Rightarrow> (v, s)
      | None \<Rightarrow>
          let s1 = s\<lparr>searches := searches s @ [''products/attributes'']\<rparr>;
              v = all_in_memory rem (searches s1)
          in (v, s1\<lparr>cached_all_product_attributes := Some v\<rparr>))"

definition store_view_product_attributes ::
    "remote \<Rightarrow> Store \<Rightarrow> ProductAttribute list \<times> Store" where
  "store_view_product_attributes rem s =
     (case cached_store_view_product_attributes s of
        Some v \<Rightarrow> (v, s)
      | None \<Rightarrow>
          (case all_product_attributes rem s of
             (attrs, s1) \<Rightarrow>
               let v = filter (\<lambda>attr. scope_attr attr = STORE) attrs
               in (v, s1\<lparr>cached_store_view_product_attributes := Some v\<rparr>)))"

definition website_product_attributes ::
    "remote \<Rightarrow> Store \<Rightarrow> ProductAttribute list \<times> Store" where
  "website_product_attributes rem s =
     (case cached_website_product_attributes s of
        Some v \<Rightarrow> (v, s)
      | None \<Rightarrow>
          (case all_product_attributes rem s of
             (attrs, s1) \<Rightarrow>
               let v = filter (\<lambda>attr. scope_attr attr = WEBSITE) attrs
               in (v, s1\<lparr>cached_website_product_attributes := Some v\<rparr>)))"

definition global_product_attributes ::
    "remote \<Rightarrow> Store \<Rightarrow> ProductAttribute list \<times> Store" where
  "global_product_attributes rem s =
     (case cached_global_product_attributes s of
        Some v \<Rightarrow> (v, s)
      | None \<Rightarrow>
          (case all_product_attributes rem s of
             (attrs, s1) \<Rightarrow>
               let v = filter (\<lambda>attr. scope_attr attr = GLOBAL) attrs
               in (v, s1\<lparr>cached_global_product_attributes := Some v\<rparr>)))"

definition website_attribute_codes :: "remote \<Rightarrow> Store \<Rightarrow> string list \<times> Store" where
  "website_attribute_codes rem s =
     (case cached_website_attribute_codes s of
        Some v \<Rightarrow> (v, s)
      | None \<Rightarrow>
          (case website_product_attributes rem s of
             (attrs, s1) \<Rightarrow>
               let v = map attribute_code attrs
               in (v, s1\<lparr>cached_website_attribute_codes := Some v\<rparr>)))"

text \<open>
  A dict of attribute data is the list of its items, in insertion order; the comprehension
  builds a new dict from the items it keeps.
\<close>

definition filter_website_attrs ::
    "remote \<Rightarrow> Store \<Rightarrow> (string \<times> 'v) list \<Rightarrow> (string \<times> 'v) list \<times> Store" where
  "filter_website_attrs rem s attribute_data =
     (case website_attribute_codes rem s of
        (codes, s1) \<Rightarrow> (filter (\<lambda>(k, v). k \<in> set codes) attribute_data, s1))"

definition refresh :: "Store \<Rightarrow> bool \<times> Store" where
  "refresh s =
     (True,
      s\<lparr>cached_configs := None,
        cached_views := None,
        cached_all_product_attributes := None,
        cached_store_view_product_attributes := None,
        cached_website_product_attributes := None,
        cached_global_product_attributes := None,
        cached_website_attribute_codes := None\<rparr>)"

definition is_single_store :: "remote \<Rightarrow> Store \<Rightarrow> bool \<times> Store" where
  "is_single_store rem s = (case configs rem s of (cfgs, s1) \<Rightarrow> (length cfgs = 1, s1))"

text \<open>
  \<^verbatim>\<open>active\<close>: the loop returns the first config whose code is the store code;
  \<^verbatim>\<open>sorted(...)[0]\<close> raises on an empty list; falling off the end returns \<^verbatim>\<open>None\<close>.
  \<^verbatim>\<open>sorted\<close> is stable, as \<open>sort_key\<close> is.
\<close>

definition active :: "remote \<Rightarrow> client \<Rightarrow> Store \<Rightarrow> (py_error + APIResponse option) \<times> Store" where
  "active rem c s =
     (let store_code = (if scope c = [] \<or> scope c = StoreCode_ALL then StoreCode_DEFAULT else scope c)
      in case configs rem s of
           (cfgs, s1) \<Rightarrow>
             (case find (\<lambda>store. code store = store_code) cfgs of
                Some store \<Rightarrow> (Inr (Some store), s1)
              | None \<Rightarrow>
                  if store_code = StoreCode_DEFAULT
                  then (case sort_key id' cfgs of
                          [] \<Rightarrow> (Inl IndexError, s1)
                        | first # rest \<Rightarrow> (Inr (Some first), s1))
                  else (Inr None, s1)))"

text \<open>
  The calls a caller can make on a store, and a store as a sequence of calls leaves it,
  starting from the store \<^verbatim>\<open>Store(client)\<close> builds.
\<close>

datatype store_call =
    Configs
  | Views
  | Websites
  | All_product_attributes
  | Store_view_product_attributes
  | Website_product_attributes
  | Global_product_attributes
  | Website_attribute_codes
  | Refresh

fun call :: "remote \<Rightarrow> store_call \<Rightarrow> Store \<Rightarrow> Store" where
  "call rem Configs s = snd (configs rem s)"
| "call rem Views s = snd (views rem s)"
| "call rem Websites s = snd (websites rem s)"
| "call rem All_product_attributes s = snd (all_product_attributes rem s)"
| "call rem Store_view_product_attributes s = snd (store_view_product_attributes rem s)"
| "call rem Website_product_attributes s = snd (website_product_attributes rem s)"
| "call rem Global_product_attributes s = snd (global_product_attributes rem s)"
| "call rem Website_attribute_codes s = snd (website_attribute_codes rem s)"
| "call rem Refresh s = snd (refresh s)"

definition new_Store :: Store where
  "new_Store =
     \<lparr>cached_configs = None, cached_views = None, cached_websites = None,
      cached_all_product_attributes = None, cached_store_view_product_attributes = None,
      cached_website_product_attributes = None, cached_global_product_attributes = None,
      cached_website_attribute_codes = None, searches = []\<rparr>"

definition calls :: "remote \<Rightarrow> store_call list \<Rightarrow> Store \<Rightarrow> Store" where
  "calls rem cs s = foldl (\<lambda>s' k. call rem k s') s cs"

text \<open>
  The memoized attribute lists agree with one another: a memoized partition is the filter of
  the memoized full list, and the memoized codes are the codes of the memoized website
  partition.
\<close>

definition memo_consistent :: "Store \<Rightarrow> bool" where
  "memo_consistent s =
     (case cached_all_product_attributes s of
        None \<Rightarrow>
          cached_store_view_product_attributes s = None
          \<and> cached_website_product_attributes s = None
          \<and> cached_global_product_attributes s = None
          \<and> cached_website_attribute_codes s = None
      | Some attrs \<Rightarrow>
          (cached_store_view_product_attributes s = None
             \<or> cached_store_view_product_attributes s
                 = Some (filter (\<lambda>attr. scope_attr attr = STORE) attrs))
          \<and> (cached_website_product_attributes s = None
             \<or> cached_website_product_attributes s
                 = Some (filter (\<lambda>attr. scope_attr attr = WEBSITE) attrs))
          \<and> (cached_global_product_attributes s = None
             \<or> cached_global_product_attributes s
                 = Some (filter (\<lambda>attr. scope_attr attr = GLOBAL) attrs))
          \<and> (cached_website_attribute_codes s = None
             \<or> (cached_website_product_attributes s \<noteq> None
                 \<and> cached_website_attribute_codes s
                     = Some (map attribute_code (filter (\<lambda>attr. scope_attr attr = WEBSITE) attrs)))))"

section \<open>Sample clients and servers\<close>

text \<open>
  A client as \<^verbatim>\<open>Client('domain.com', 'user', login=False)\<close> leaves it: the default
  password, no API key, no token attribute yet.
\<close>

definition sample_client :: client where
  "sample_client =
     \<lparr>BASE_URL = ''https://domain.com/rest/V1/'',
      username = Some ''user'',
      password = Some ''my-magento-client'',
      api_key = None,
      authentication_method = PASSWORD,
      domain = ''domain.com'',
      scope = [],
      user_agent = ''agent'',
      authentication_retries = 0,
      ACCESS_TOKEN = Absent,
      priv_product_attribute_options_attribute = Absent,
      priv_product_attribute_options = Absent,
      priv_media_entries_product = Absent,
      priv_media_entry_manager = Absent,
      sent = [],
      log = []\<rparr>"

text \<open>A server that answers the requests in turn from a list of responses, then with 200.\<close>

definition scripted :: "response list \<Rightarrow> server" where
  "scripted rs reqs =
     (if length reqs - 1 < length rs then rs ! (length reqs - 1)
      else \<lparr>status_code = 200, json = None\<rparr>)"

text \<open>
  A remote with one store configuration and three product attributes, one of each scope.
\<close>

definition sample_remote :: remote where
  "sample_remote =
     \<lparr>execute_search = (\<lambda>fetched. [\<lparr>code = ''default'', id' = 1\<rparr>]),
      all_in_memory = (\<lambda>fetched.
        [\<lparr>attribute_code = ''price'', scope_attr = WEBSITE\<rparr>,
         \<lparr>attribute_code = ''meta_title'', scope_attr = STORE\<rparr>,
         \<lparr>attribute_code = ''sku'', scope_attr = GLOBAL\<rparr>])\<rparr>"

text \<open>
  The requests the sample client sends: the login, and a \<^verbatim>\<open>GET\<close> under a token.
\<close>

definition sample_login :: http_request where
  "sample_login =
     \<lparr>method_arg = ''POST'',
      url_arg = ''https://domain.com/rest/V1/integration/admin/token'',
      json_arg = Some [(''username'', Some ''user''), (''password'', Some ''my-magento-client'')],
      headers_arg = [(''Content-Type'', ''application/json''), (''User-Agent'', ''agent'')]\<rparr>"

definition sample_get :: "string \<Rightarrow> string \<Rightarrow> http_request" where
  "sample_get tok u =
     \<lparr>method_arg = ''GET'', url_arg = u, json_arg = None,
      headers_arg = [(''Authorization'', ''Bearer '' @ tok),
        (''Content-Type'', ''application/json''), (''User-Agent'', ''agent'')]\<rparr>"

text \<open>
  A server that answers every request to one url with 401 and every other request, the login
  and the validation among them, with 200 and a token.
\<close>

definition always_unauthorized :: "string \<Rightarrow> server" where
  "always_unauthorized u reqs =
     (if reqs \<noteq> [] \<and> url_arg (last reqs) = u
      then \<lparr>status_code = 401, json = None\<rparr>
      else \<lparr>status_code = 200, json = Some ''tok''\<rparr>)"

text \<open>
  A server under which three calls of \<^verbatim>\<open>authenticate\<close> fail in the same way: the login is
  accepted, the validation is answered 401, the re-authentication that follows is accepted
  and validated, and the replay of the validation is answered 500. The requests of a fourth
  call are accepted.
\<close>

definition failing_thrice :: server where
  "failing_thrice =
     scripted
       (concat (replicate 3
          [\<lparr>status_code = 200, json = Some ''tok''\<rparr>, \<lparr>status_code = 401, json = None\<rparr>,
           \<lparr>status_code = 200, json = Some ''tok''\<rparr>, \<lparr>status_code = 200, json = None\<rparr>,
           \<lparr>status_code = 500, json = None\<rparr>])
        @ [\<lparr>status_code = 200, json = Some ''tok''\<rparr>, \<lparr>status_code = 200, json = None\<rparr>])"

section \<open>Counting authentications\<close>

text \<open>
  The logger receives \<^verbatim>\<open>Authenticated successfully\<close> exactly when \<^verbatim>\<open>authenticate\<close>
  succeeds, so the log counts the successful authentications. \<open>carried c c'\<close> relates a
  client to a later one: no success is lost, the retry counter stays within 3 if it was,
  and the counter has not gone down unless an authentication succeeded in between.
\<close>

definition is_success :: "log_record \<Rightarrow> bool" where
  "is_success r = (case r of Authenticated_successfully d \<Rightarrow> True | _ \<Rightarrow> False)"

definition successes :: "client \<Rightarrow> nat" where
  "successes c = length (filter is_success (log c))"

definition carried :: "client \<Rightarrow> client \<Rightarrow> bool" where
  "carried c c' =
     (successes c \<le> successes c'
      \<and> (authentication_retries c \<le> 3 \<longrightarrow> authentication_retries c' \<le> 3)
      \<and> (successes c' = successes c \<longrightarrow> authentication_retries c \<le> authentication_retries c'))"

section \<open>Store.active\<close>

lemma find_first_split:
  "find P xs = Some x \<Longrightarrow> \<exists>pre post. xs = pre @ x # post \<and> P x \<and> (\<forall>y\<in>set pre. \<not> P y)"
proof (induction xs)
  case Nil
  then show ?case by simp
next
  case (Cons a xs)
  show ?case
  proof (cases "P a")
    case True
    with Cons.prems have "a = x" by simp
    with True have "a # xs = [] @ x # xs \<and> P x \<and> (\<forall>y\<in>set []. \<not> P y)" by simp
    then show ?thesis by blast
  next
    case False
    with Cons.prems have "find P xs = Some x" by simp
    from Cons.IH[OF this] obtain pre post where
      "xs = pre @ x # post" "P x" "\<forall>y\<in>set pre. \<not> P y" by blast
    with False have "a # xs = (a # pre) @ x # post \<and> P x \<and> (\<forall>y\<in>set (a # pre). \<not> P y)" by simp
    then show ?thesis by blast
  qed
qed

lemma sort_key_head_least:
  fixes f :: "'a \<Rightarrow> int"
  assumes "sort_key f xs = y # ys"
  shows "y \<in> set xs \<and> (\<forall>x\<in>set xs. f y \<le> f x)"
proof -
  have s: "sorted (map f (sort_key f xs))" by (rule sorted_sort_key)
  have m: "set (sort_key f xs) = set xs" by simp
  from m assms have "y \<in> set xs" by (metis list.set_intros(1))
  moreover have "\<forall>x\<in>set xs. f y \<le> f x"
  proof
    fix x assume "x \<in> set xs"
    with m assms have "x \<in> set (y # ys)" by simp
    with s assms show "f y \<le> f x" by auto
  qed
  ultimately show ?thesis by simp
qed

lemma sort_key_Nil_iff: "sort_key f xs = [] \<longleftrightarrow> xs = []"
  by (metis length_sort length_0_conv)

text \<open>
  Claim C1, as the code has it. The store code is the client's scope, or \<^verbatim>\<open>"default"\<close>
  when the scope is empty or \<^verbatim>\<open>"all"\<close>. \<^verbatim>\<open>active\<close> returns the first config, in list
  order, whose code is the store code. When no config has that code and the store code is
  \<^verbatim>\<open>"default"\<close>, it returns a config of the smallest id among all configs, and raises
  \<^verbatim>\<open>IndexError\<close> when there is no config at all. When no config has that code and the
  store code is not \<^verbatim>\<open>"default"\<close>, it returns \<^verbatim>\<open>None\<close>.
\<close>

theorem active_resolution:
  assumes "configs rem s = (cfgs, s1)"
    and "store_code = (if scope c = [] \<or> scope c = StoreCode_ALL then StoreCode_DEFAULT else scope c)"
  shows "(\<forall>store. find (\<lambda>x. code x = store_code) cfgs = Some store \<longrightarrow>
            active rem c s = (Inr (Some store), s1)
            \<and> (\<exists>pre post. cfgs = pre @ store # post \<and> code store = store_code
                 \<and> (\<forall>x\<in>set pre. code x \<noteq> store_code)))
       \<and> ((\<forall>x\<in>set cfgs. code x \<noteq> store_code) \<and> store_code = StoreCode_DEFAULT \<and> cfgs \<noteq> [] \<longrightarrow>
            (\<exists>r. active rem c s = (Inr (Some r), s1) \<and> r \<in> set cfgs
                 \<and> (\<forall>x\<in>set cfgs. id' r \<le> id' x)))
       \<and> (store_code = StoreCode_DEFAULT \<and> cfgs = [] \<longrightarrow> active rem c s = (Inl IndexError, s1))
       \<and> ((\<forall>x\<in>set cfgs. code x \<noteq> store_code) \<and> store_code \<noteq> StoreCode_DEFAULT \<longrightarrow>
            active rem c s = (Inr None, s1))"
proof (intro conjI allI impI)
  fix store
  assume f: "find (\<lambda>x. code x = store_code) cfgs = Some store"
  with assms show "active rem c s = (Inr (Some store), s1)"
    by (simp add: active_def)
  from find_first_split[OF f]
  show "\<exists>pre post. cfgs = pre @ store # post \<and> code store = store_code
          \<and> (\<forall>x\<in>set pre. code x \<noteq> store_code)" by simp
next
  assume h: "(\<forall>x\<in>set cfgs. code x \<noteq> store_code) \<and> store_code = StoreCode_DEFAULT \<and> cfgs \<noteq> []"
  then have nf: "find (\<lambda>x. code x = store_code) cfgs = None"
    by (auto simp: find_None_iff)
  from h obtain y ys where sk: "sort_key id' cfgs = y # ys"
    by (cases "sort_key id' cfgs") (simp_all add: sort_key_Nil_iff)
  from assms nf h sk have "active rem c s = (Inr (Some y), s1)"
    by (simp add: active_def)
  with sort_key_head_least[OF sk]
  show "\<exists>r. active rem c s = (Inr (Some r), s1) \<and> r \<in> set cfgs \<and> (\<forall>x\<in>set cfgs. id' r \<le> id' x)"
    by blast
next
  assume "store_code = StoreCode_DEFAULT \<and> cfgs = []"
  with assms show "active rem c s = (Inl IndexError, s1)"
    by (simp add: active_def)
next
  assume h: "(\<forall>x\<in>set cfgs. code x \<noteq> store_code) \<and> store_code \<noteq> StoreCode_DEFAULT"
  then have nf: "find (\<lambda>x. code x = store_code) cfgs = None"
    by (auto simp: find_None_iff)
  with assms h show "active rem c s = (Inr None, s1)"
    by (simp add: active_def)
qed

theorem active_resolution_witness:
  "active \<lparr>execute_search = (\<lambda>fetched. [\<lparr>code = ''default'', id' = 1\<rparr>, \<lparr>code = ''en'', id' = 2\<rparr>]),
           all_in_memory = (\<lambda>fetched. [])\<rparr>
     (sample_client\<lparr>scope := ''en''\<rparr>)
     (new_Store\<lparr>cached_configs := Some [\<lparr>code = ''default'', id' = 1\<rparr>, \<lparr>code = ''en'', id' = 2\<rparr>]\<rparr>)
   = (Inr (Some \<lparr>code = ''en'', id' = 2\<rparr>),
      new_Store\<lparr>cached_configs := Some [\<lparr>code = ''default'', id' = 1\<rparr>, \<lparr>code = ''en'', id' = 2\<rparr>]\<rparr>)
   \<and> active \<lparr>execute_search = (\<lambda>fetched. []), all_in_memory = (\<lambda>fetched. [])\<rparr>
        sample_client
        (new_Store\<lparr>cached_configs := Some [\<lparr>code = ''main'', id' = 5\<rparr>, \<lparr>code = ''en'', id' = 3\<rparr>]\<rparr>)
      = (Inr (Some \<lparr>code = ''en'', id' = 3\<rparr>),
         new_Store\<lparr>cached_configs := Some [\<lparr>code = ''main'', id' = 5\<rparr>, \<lparr>code = ''en'', id' = 3\<rparr>]\<rparr>)
   \<and> active \<lparr>execute_search = (\<lambda>fetched. []), all_in_memory = (\<lambda>fetched. [])\<rparr>
        sample_client (new_Store\<lparr>cached_configs := Some []\<rparr>)
      = (Inl IndexError, new_Store\<lparr>cached_configs := Some []\<rparr>)
   \<and> active \<lparr>execute_search = (\<lambda>fetched. []), all_in_memory = (\<lambda>fetched. [])\<rparr>
        (sample_client\<lparr>scope := ''fr''\<rparr>)
        (new_Store\<lparr>cached_configs := Some [\<lparr>code = ''default'', id' = 1\<rparr>]\<rparr>)
      = (Inr None, new_Store\<lparr>cached_configs := Some [\<lparr>code = ''default'', id' = 1\<rparr>]\<rparr>)"
  using
    active_resolution [of
      "\<lparr>execute_search = (\<lambda>fetched. [\<lparr>code = ''default'', id' = 1\<rparr>, \<lparr>code = ''en'', id' = 2\<rparr>]),
        all_in_memory = (\<lambda>fetched. [])\<rparr>"
      "new_Store\<lparr>cached_configs := Some [\<lparr>code = ''default'', id' = 1\<rparr>, \<lparr>code = ''en'', id' = 2\<rparr>]\<rparr>"
      "[\<lparr>code = ''default'', id' = 1\<rparr>, \<lparr>code = ''en'', id' = 2\<rparr>]"
      "new_Store\<lparr>cached_configs := Some [\<lparr>code = ''default'', id' = 1\<rparr>, \<lparr>code = ''en'', id' = 2\<rparr>]\<rparr>"
      "''en''" "sample_client\<lparr>scope := ''en''\<rparr>"]
    active_resolution [of
      "\<lparr>execute_search = (\<lambda>fetched. []), all_in_memory = (\<lambda>fetched. [])\<rparr>"
      "new_Store\<lparr>cached_configs := Some [\<lparr>code = ''main'', id' = 5\<rparr>, \<lparr>code = ''en'', id' = 3\<rparr>]\<rparr>"
      "[\<lparr>code = ''main'', id' = 5\<rparr>, \<lparr>code = ''en'', id' = 3\<rparr>]"
      "new_Store\<lparr>cached_configs := Some [\<lparr>code = ''main'', id' = 5\<rparr>, \<lparr>code = ''en'', id' = 3\<rparr>]\<rparr>"
      "''default''" sample_client]
    active_resolution [of
      "\<lparr>execute_search = (\<lambda>fetched. []), all_in_memory = (\<lambda>fetched. [])\<rparr>"
      "new_Store\<lparr>cached_configs := Some []\<rparr>" "[]" "new_Store\<lparr>cached_configs := Some []\<rparr>"
      "''default''" sample_client]
    active_resolution [of
      "\<lparr>execute_search = (\<lambda>fetched. []), all_in_memory = (\<lambda>fetched. [])\<rparr>"
      "new_Store\<lparr>cached_configs := Some [\<lparr>code = ''default'', id' = 1\<rparr>]\<rparr>"
      "[\<lparr>code = ''default'', id' = 1\<rparr>]"
      "new_Store\<lparr>cached_configs := Some [\<lparr>code = ''default'', id' = 1\<rparr>]\<rparr>"
      "''fr''" "sample_client\<lparr>scope := ''fr''\<rparr>"]
  by (simp add: active_def Let_def configs_def new_Store_def sample_client_def
      StoreCode_DEFAULT_def StoreCode_ALL_def)

text \<open>
  Claim C1, as the spec states it, fails: for the configs
  \<^verbatim>\<open>[{code:'default', id:2}, {code:'default', id:1}]\<close> and the client scope \<^verbatim>\<open>''\<close>
  the loop returns the first config of code \<^verbatim>\<open>"default"\<close>, the one with id 2.
\<close>

theorem active_first_match_counterexample:
  "fst (active
      \<lparr>execute_search = (\<lambda>fetched. [\<lparr>code = ''default'', id' = 2\<rparr>, \<lparr>code = ''default'', id' = 1\<rparr>]),
       all_in_memory = (\<lambda>fetched. [])\<rparr>
      sample_client new_Store)
   = Inr (Some \<lparr>code = ''default'', id' = 2\<rparr>)"
  by (simp add: active_def configs_def new_Store_def sample_client_def StoreCode_DEFAULT_def
      StoreCode_ALL_def Let_def)

section \<open>Client.manager\<close>

text \<open>
  Claim C5, as the code has it. An endpoint whose lower-case form contains
  \<^verbatim>\<open>products/attributes\<close> and \<^verbatim>\<open>/options\<close> resolves through
  \<^verbatim>\<open>product_attribute_options\<close>, so \<^verbatim>\<open>products/attributes/{x}/options\<close> reaches the
  attribute-options manager.
\<close>

theorem manager_attribute_options:
  "contains ''products/attributes'' (lower endpoint) \<Longrightarrow> contains ''/options'' (lower endpoint)
   \<Longrightarrow> manager c endpoint = product_attribute_options c"
  by (auto simp: manager_def Let_def)

theorem manager_attribute_options_witness:
  "contains ''products/attributes'' (lower ''Products/Attributes/color/options'')
   \<and> contains ''/options'' (lower ''Products/Attributes/color/options'')
   \<and> manager
        (set_product_attribute_options_attribute
           (Some \<lparr>attribute_code = ''color'', scope_attr = GLOBAL\<rparr>) sample_client)
        ''Products/Attributes/color/options''
      = (Inr (ProductAttributeOptionManager (Some \<lparr>attribute_code = ''color'', scope_attr = GLOBAL\<rparr>)),
         (set_product_attribute_options_attribute
            (Some \<lparr>attribute_code = ''color'', scope_attr = GLOBAL\<rparr>) sample_client)
         \<lparr>priv_product_attribute_options :=
            Present (Some (ProductAttributeOptionManager
              (Some \<lparr>attribute_code = ''color'', scope_attr = GLOBAL\<rparr>)))\<rparr>)"
  using manager_attribute_options [of "''Products/Attributes/color/options''"
      "set_product_attribute_options_attribute
         (Some \<lparr>attribute_code = ''color'', scope_attr = GLOBAL\<rparr>) sample_client"]
  by (simp add: lower_def lower_char_def product_attribute_options_def Let_def
      set_product_attribute_options_attribute_def sample_client_def)

text \<open>
  Claim C5, as the spec states it, fails: \<^verbatim>\<open>products/attr123/options\<close> does not contain
  \<^verbatim>\<open>products/attributes\<close>, matches no pattern and resolves to the general manager.
\<close>

theorem manager_options_counterexample:
  "manager sample_client ''products/attr123/options''
   = (Inr (Manager ''products/attr123/options''), sample_client)"
  by (simp add: manager_def lower_def lower_char_def)

section \<open>Handlers that need a prerequisite\<close>

text \<open>
  Claim C7. While no attribute (no product) is set and no handler has been built,
  \<^verbatim>\<open>product_attribute_options\<close> (\<^verbatim>\<open>product_media_entries\<close>) raises the
  \<^verbatim>\<open>AttributeError\<close> that names the missing prerequisite and leaves the client as it was:
  nothing is built and nothing is sent. Assigning a prerequisite deletes the handler built
  before, and the next resolution returns a handler built from the new prerequisite.
\<close>

theorem prerequisite_handlers:
  "((priv_product_attribute_options c = Absent \<or> priv_product_attribute_options c = Present None)
      \<and> (priv_product_attribute_options_attribute c = Absent
           \<or> priv_product_attribute_options_attribute c = Present None)
     \<longrightarrow> product_attribute_options c = (Inl (AttributeError
           ''Attribute was not set for this manager to work. Please set `product_attribute_options_attribute` first.''), c))
   \<and> ((priv_media_entry_manager c = Absent \<or> priv_media_entry_manager c = Present None)
      \<and> (priv_media_entries_product c = Absent \<or> priv_media_entries_product c = Present None)
     \<longrightarrow> product_media_entries c = (Inl (AttributeError
           ''Product was not set for this manager to work. Please set `media_entries_product` first.''), c))
   \<and> priv_product_attribute_options (set_product_attribute_options_attribute (Some a) c) = Absent
   \<and> product_attribute_options (set_product_attribute_options_attribute (Some a) c)
       = (Inr (ProductAttributeOptionManager (Some a)),
          (set_product_attribute_options_attribute (Some a) c)
            \<lparr>priv_product_attribute_options := Present (Some (ProductAttributeOptionManager (Some a)))\<rparr>)
   \<and> priv_media_entry_manager (set_media_entries_product (Some p) c) = Absent
   \<and> product_media_entries (set_media_entries_product (Some p) c)
       = (Inr (MediaEntryManager (Some p)),
          (set_media_entries_product (Some p) c)
            \<lparr>priv_media_entry_manager := Present (Some (MediaEntryManager (Some p)))\<rparr>)"
  by (simp add: product_attribute_options_def product_media_entries_def
      set_product_attribute_options_attribute_def set_media_entries_product_def Let_def)

theorem prerequisite_handlers_witness:
  "priv_product_attribute_options sample_client = Absent
   \<and> priv_product_attribute_options_attribute sample_client = Absent
   \<and> priv_media_entry_manager sample_client = Absent
   \<and> priv_media_entries_product sample_client = Absent
   \<and> (\<exists>msg. product_attribute_options sample_client = (Inl (AttributeError msg), sample_client))
   \<and> (\<exists>msg. product_media_entries sample_client = (Inl (AttributeError msg), sample_client))
   \<and> fst (product_attribute_options
        (set_product_attribute_options_attribute
           (Some \<lparr>attribute_code = ''size'', scope_attr = GLOBAL\<rparr>)
           (snd (product_attribute_options
             (set_product_attribute_options_attribute
               (Some \<lparr>attribute_code = ''color'', scope_attr = GLOBAL\<rparr>) sample_client)))))
      = Inr (ProductAttributeOptionManager (Some \<lparr>attribute_code = ''size'', scope_attr = GLOBAL\<rparr>))
   \<and> fst (product_media_entries (set_media_entries_product (Some (Product ''sku-2''))
        (snd (product_media_entries (set_media_entries_product (Some (Product ''sku-1'')) sample_client)))))
      = Inr (MediaEntryManager (Some (Product ''sku-2'')))"
  using prerequisite_handlers [of sample_client
      "\<lparr>attribute_code = ''color'', scope_attr = GLOBAL\<rparr>" "Product ''sku-1''"]
    prerequisite_handlers [of
      "snd (product_attribute_options
             (set_product_attribute_options_attribute
               (Some \<lparr>attribute_code = ''color'', scope_attr = GLOBAL\<rparr>) sample_client))"
      "\<lparr>attribute_code = ''size'', scope_attr = GLOBAL\<rparr>" "Product ''sku-2''"]
    prerequisite_handlers [of
      "snd (product_media_entries (set_media_entries_product (Some (Product ''sku-1'')) sample_client))"
      "\<lparr>attribute_code = ''size'', scope_attr = GLOBAL\<rparr>" "Product ''sku-2''"]
  by (simp add: sample_client_def)

section \<open>The memoized attribute lists\<close>

lemmas accessor_defs =
  configs_def views_def websites_def all_product_attributes_def
  store_view_product_attributes_def website_product_attributes_def
  global_product_attributes_def website_attribute_codes_def

lemma memo_consistent_new_Store: "memo_consistent new_Store"
  by (simp add: memo_consistent_def new_Store_def)

lemma memo_consistent_call: "memo_consistent s \<Longrightarrow> memo_consistent (call rem k s)"
  by (cases k)
     (auto simp: memo_consistent_def accessor_defs refresh_def Let_def
           split: option.splits prod.splits)

lemma memo_consistent_calls: "memo_consistent s \<Longrightarrow> memo_consistent (calls rem cs s)"
  unfolding calls_def
  by (induction cs arbitrary: s) (simp_all add: memo_consistent_call)

lemma store_view_result:
  assumes "memo_consistent s" and "store_view_product_attributes rem s = (v, s')"
  shows "\<exists>al. cached_all_product_attributes s' = Some al
           \<and> v = filter (\<lambda>attr. scope_attr attr = STORE) al
           \<and> cached_store_view_product_attributes s' = Some v
           \<and> memo_consistent s'
           \<and> (\<forall>x. cached_website_product_attributes s = Some x \<longrightarrow> cached_website_product_attributes s' = Some x)
           \<and> (\<forall>x. cached_global_product_attributes s = Some x \<longrightarrow> cached_global_product_attributes s' = Some x)"
  using assms
  by (auto simp: memo_consistent_def store_view_product_attributes_def all_product_attributes_def
        Let_def split: option.splits prod.splits)

lemma website_result:
  assumes "memo_consistent s" and "website_product_attributes rem s = (v, s')"
  shows "\<exists>al. cached_all_product_attributes s' = Some al
           \<and> v = filter (\<lambda>attr. scope_attr attr = WEBSITE) al
           \<and> cached_website_product_attributes s' = Some v
           \<and> memo_consistent s'
           \<and> (\<forall>x. cached_store_view_product_attributes s = Some x \<longrightarrow> cached_store_view_product_attributes s' = Some x)
           \<and> (\<forall>x. cached_global_product_attributes s = Some x \<longrightarrow> cached_global_product_attributes s' = Some x)"
  using assms
  by (auto simp: memo_consistent_def website_product_attributes_def all_product_attributes_def
        Let_def split: option.splits prod.splits)

lemma global_result:
  assumes "memo_consistent s" and "global_product_attributes rem s = (v, s')"
  shows "\<exists>al. cached_all_product_attributes s' = Some al
           \<and> v = filter (\<lambda>attr. scope_attr attr = GLOBAL) al
           \<and> cached_global_product_attributes s' = Some v
           \<and> memo_consistent s'
           \<and> (\<forall>x. cached_store_view_product_attributes s = Some x \<longrightarrow> cached_store_view_product_attributes s' = Some x)
           \<and> (\<forall>x. cached_website_product_attributes s = Some x \<longrightarrow> cached_website_product_attributes s' = Some x)"
  using assms
  by (auto simp: memo_consistent_def global_product_attributes_def all_product_attributes_def
        Let_def split: option.splits prod.splits)

lemma call_keeps_memo:
  assumes "k \<noteq> Refresh"
  shows "(cached_all_product_attributes s = Some al \<longrightarrow> cached_all_product_attributes (call rem k s) = Some al)
       \<and> (cached_store_view_product_attributes s = Some sv \<longrightarrow> cached_store_view_product_attributes (call rem k s) = Some sv)
       \<and> (cached_website_product_attributes s = Some ws \<longrightarrow> cached_website_product_attributes (call rem k s) = Some ws)
       \<and> (cached_global_product_attributes s = Some gl \<longrightarrow> cached_global_product_attributes (call rem k s) = Some gl)"
  using assms
  by (cases k) (auto simp: accessor_defs Let_def split: option.splits prod.splits)

lemma scope_partition:
  "set (filter (\<lambda>attr. scope_attr attr = STORE) al) \<inter> set (filter (\<lambda>attr. scope_attr attr = WEBSITE) al) = {}
   \<and> set (filter (\<lambda>attr. scope_attr attr = STORE) al) \<inter> set (filter (\<lambda>attr. scope_attr attr = GLOBAL) al) = {}
   \<and> set (filter (\<lambda>attr. scope_attr attr = WEBSITE) al) \<inter> set (filter (\<lambda>attr. scope_attr attr = GLOBAL) al) = {}
   \<and> set (filter (\<lambda>attr. scope_attr attr = STORE) al) \<union> set (filter (\<lambda>attr. scope_attr attr = WEBSITE) al)
       \<union> set (filter (\<lambda>attr. scope_attr attr = GLOBAL) al) = set al"
proof -
  have "\<And>a. scope_attr a = STORE \<or> scope_attr a = WEBSITE \<or> scope_attr a = GLOBAL"
    by (metis Scope.exhaust)
  then show ?thesis by auto
qed

lemma website_attribute_codes_result:
  assumes "memo_consistent s" and "website_attribute_codes rem s = (codes, s')"
  shows "\<exists>al. cached_all_product_attributes s' = Some al
           \<and> codes = map attribute_code (filter (\<lambda>attr. scope_attr attr = WEBSITE) al)"
  using assms
  by (auto simp: memo_consistent_def website_attribute_codes_def website_product_attributes_def
        all_product_attributes_def Let_def split: option.splits prod.splits)

text \<open>
  Claim C6. On every store that a sequence of calls leaves behind, the three partitions are
  the filters of the memoized full attribute list by scope: pairwise disjoint, and together
  the full list. Once memoized, no call other than \<^verbatim>\<open>refresh\<close> changes them, whatever the
  remote would answer by then.
\<close>

theorem attribute_partitions:
  assumes "s = calls rem0 cs new_Store"
    and "store_view_product_attributes rem s = (sv, s1)"
    and "website_product_attributes rem s1 = (ws, s2)"
    and "global_product_attributes rem s2 = (gl, s3)"
    and "all_product_attributes rem s3 = (al, s4)"
  shows "set sv \<inter> set ws = {} \<and> set sv \<inter> set gl = {} \<and> set ws \<inter> set gl = {}
       \<and> set sv \<union> set ws \<union> set gl = set al
       \<and> sv = filter (\<lambda>attr. scope_attr attr = STORE) al
       \<and> ws = filter (\<lambda>attr. scope_attr attr = WEBSITE) al
       \<and> gl = filter (\<lambda>attr. scope_attr attr = GLOBAL) al
       \<and> s4 = s3
       \<and> (\<forall>k rem'. k \<noteq> Refresh \<longrightarrow>
             store_view_product_attributes rem' (call rem' k s3) = (sv, call rem' k s3)
             \<and> website_product_attributes rem' (call rem' k s3) = (ws, call rem' k s3)
             \<and> global_product_attributes rem' (call rem' k s3) = (gl, call rem' k s3)
             \<and> all_product_attributes rem' (call rem' k s3) = (al, call rem' k s3))"
proof -
  from assms(1) have c0: "memo_consistent s"
    by (simp add: memo_consistent_calls memo_consistent_new_Store)
  from store_view_result[OF c0 assms(2)] obtain al1 where
    a1: "cached_all_product_attributes s1 = Some al1"
    and sv1: "cached_store_view_product_attributes s1 = Some sv"
    and c1: "memo_consistent s1" by blast
  from website_result[OF c1 assms(3)] sv1 obtain al2 where
    a2: "cached_all_product_attributes s2 = Some al2"
    and ws2: "cached_website_product_attributes s2 = Some ws"
    and sv2: "cached_store_view_product_attributes s2 = Some sv"
    and c2: "memo_consistent s2" by blast
  from global_result[OF c2 assms(4)] sv2 ws2 obtain al3 where
    a3: "cached_all_product_attributes s3 = Some al3"
    and gl3: "cached_global_product_attributes s3 = Some gl"
    and gl_eq: "gl = filter (\<lambda>attr. scope_attr attr = GLOBAL) al3"
    and sv3: "cached_store_view_product_attributes s3 = Some sv"
    and ws3: "cached_website_product_attributes s3 = Some ws"
    and c3: "memo_consistent s3" by blast
  from a3 assms(5) have al: "al = al3" and s4: "s4 = s3"
    by (simp_all add: all_product_attributes_def)
  from c3 a3 sv3 ws3 have sv_eq: "sv = filter (\<lambda>attr. scope_attr attr = STORE) al3"
    and ws_eq: "ws = filter (\<lambda>attr. scope_attr attr = WEBSITE) al3"
    by (simp_all add: memo_consistent_def)
  have frame: "\<forall>k rem'. k \<noteq> Refresh \<longrightarrow>
             store_view_product_attributes rem' (call rem' k s3) = (sv, call rem' k s3)
             \<and> website_product_attributes rem' (call rem' k s3) = (ws, call rem' k s3)
             \<and> global_product_attributes rem' (call rem' k s3) = (gl, call rem' k s3)
             \<and> all_product_attributes rem' (call rem' k s3) = (al, call rem' k s3)"
  proof (intro allI impI)
    fix k rem'
    assume k: "k \<noteq> Refresh"
    from call_keeps_memo[OF k, of s3 al3 rem' sv ws gl] a3 sv3 ws3 gl3
    have "cached_all_product_attributes (call rem' k s3) = Some al3"
      and "cached_store_view_product_attributes (call rem' k s3) = Some sv"
      and "cached_website_product_attributes (call rem' k s3) = Some ws"
      and "cached_global_product_attributes (call rem' k s3) = Some gl"
      by simp_all
    with al show "store_view_product_attributes rem' (call rem' k s3) = (sv, call rem' k s3)
             \<and> website_product_attributes rem' (call rem' k s3) = (ws, call rem' k s3)
             \<and> global_product_attributes rem' (call rem' k s3) = (gl, call rem' k s3)
             \<and> all_product_attributes rem' (call rem' k s3) = (al, call rem' k s3)"
      by (simp add: accessor_defs)
  qed
  from scope_partition[of al3] sv_eq ws_eq gl_eq al
  have "set sv \<inter> set ws = {} \<and> set sv \<inter> set gl = {} \<and> set ws \<inter> set gl = {}
       \<and> set sv \<union> set ws \<union> set gl = set al"
    by simp
  with sv_eq ws_eq gl_eq al s4 frame show ?thesis by simp
qed


theorem attribute_partitions_witness:
  "(let s = calls sample_remote [Refresh] new_Store;
        r1 = store_view_product_attributes sample_remote s;
        r2 = website_product_attributes sample_remote (snd r1);
        r3 = global_product_attributes sample_remote (snd r2);
        r4 = all_product_attributes sample_remote (snd r3)
    in fst r1 = [\<lparr>attribute_code = ''meta_title'', scope_attr = STORE\<rparr>]
       \<and> fst r2 = [\<lparr>attribute_code = ''price'', scope_attr = WEBSITE\<rparr>]
       \<and> fst r3 = [\<lparr>attribute_code = ''sku'', scope_attr = GLOBAL\<rparr>]
       \<and> set (fst r1) \<inter> set (fst r2) = {} \<and> set (fst r1) \<inter> set (fst r3) = {}
       \<and> set (fst r2) \<inter> set (fst r3) = {}
       \<and> set (fst r1) \<union> set (fst r2) \<union> set (fst r3) = set (fst r4)
       \<and> snd r4 = snd r3)"
proof -
  note t = attribute_partitions [where rem = sample_remote and ?rem0.0 = sample_remote
      and cs = "[Refresh]",
      OF refl prod.collapse [symmetric] prod.collapse [symmetric] prod.collapse [symmetric]
        prod.collapse [symmetric]]
  have e: "fst (store_view_product_attributes sample_remote (calls sample_remote [Refresh] new_Store))
        = [\<lparr>attribute_code = ''meta_title'', scope_attr = STORE\<rparr>]
      \<and> fst (website_product_attributes sample_remote
          (snd (store_view_product_attributes sample_remote (calls sample_remote [Refresh] new_Store))))
        = [\<lparr>attribute_code = ''price'', scope_attr = WEBSITE\<rparr>]
      \<and> fst (global_product_attributes sample_remote (snd (website_product_attributes sample_remote
          (snd (store_view_product_attributes sample_remote (calls sample_remote [Refresh] new_Store))))))
        = [\<lparr>attribute_code = ''sku'', scope_attr = GLOBAL\<rparr>]"
    by (simp add: calls_def refresh_def new_Store_def sample_remote_def accessor_defs Let_def)
  show ?thesis
    unfolding Let_def using t e by blast
qed

section \<open>Store.refresh\<close>

text \<open>
  Claim C2 does not hold of the code: the tuple of names that \<^verbatim>\<open>refresh\<close> pops has no
  \<^verbatim>\<open>'websites'\<close>, so the memoized websites survive a refresh. After configs and websites
  were read and the store refreshed, the configs are fetched again and the websites are not.
\<close>

theorem refresh_keeps_websites:
  "cached_websites (snd (refresh s)) = cached_websites s
   \<and> (let s1 = snd (websites sample_remote (snd (configs sample_remote new_Store)));
           s2 = snd (refresh s1);
           rem2 = \<lparr>execute_search = (\<lambda>fetched. []), all_in_memory = (\<lambda>fetched. [])\<rparr>
       in cached_configs s1 = Some [\<lparr>code = ''default'', id' = 1\<rparr>]
          \<and> cached_configs s2 = None
          \<and> configs rem2 s2
              = ([], s2\<lparr>searches := [''store/storeConfigs'', ''store/websites'', ''store/storeConfigs''],
                       cached_configs := Some []\<rparr>)
          \<and> cached_websites s2 = Some [\<lparr>code = ''default'', id' = 1\<rparr>]
          \<and> websites rem2 s2 = ([\<lparr>code = ''default'', id' = 1\<rparr>], s2))"
  by (simp add: Let_def refresh_def configs_def websites_def new_Store_def sample_remote_def)

section \<open>Store.filter_website_attrs\<close>

lemma map_of_filter_keys:
  "distinct (map fst xs) \<Longrightarrow> map_of (filter (\<lambda>(k, v). Q k) xs) k = Some v \<Longrightarrow> map_of xs k = Some v"
proof -
  assume d: "distinct (map fst xs)" and m: "map_of (filter (\<lambda>(k, v). Q k) xs) k = Some v"
  from m have "(k, v) \<in> set (filter (\<lambda>(k, v). Q k) xs)" by (rule map_of_SomeD)
  then have "(k, v) \<in> set xs" by simp
  with d show ?thesis by simp
qed

lemma website_attribute_codes_memoized:
  "website_attribute_codes rem s = (codes, s1) \<Longrightarrow> cached_website_attribute_codes s1 = Some codes"
  by (auto simp: website_attribute_codes_def Let_def split: option.splits prod.splits)

lemma website_attribute_codes_again:
  "cached_website_attribute_codes s = Some codes \<Longrightarrow> website_attribute_codes rem s = (codes, s)"
  by (simp add: website_attribute_codes_def)

text \<open>
  Claim C10. The result holds exactly the items of the input whose key is one of the website
  attribute codes, which are the codes of the website-scoped attributes of the memoized full
  list: every item of the result is an item of the input, a key of the result is bound as in
  the input, and filtering the result again returns it unchanged. The input is a value; the
  call returns a new list.
\<close>

theorem filter_website_attrs_submapping:
  assumes "s = calls rem0 cs new_Store"
    and "filter_website_attrs rem s attribute_data = (r, s1)"
    and "website_attribute_codes rem s = (codes, s1')"
  shows "set r \<subseteq> set attribute_data
       \<and> (\<forall>(k, v)\<in>set r. k \<in> set codes)
       \<and> r = filter (\<lambda>(k, v). k \<in> set codes) attribute_data
       \<and> (\<exists>al. cached_all_product_attributes s1 = Some al
             \<and> codes = map attribute_code (filter (\<lambda>attr. scope_attr attr = WEBSITE) al))
       \<and> (distinct (map fst attribute_data) \<longrightarrow>
            (\<forall>k v. map_of r k = Some v \<longrightarrow> map_of attribute_data k = Some v \<and> k \<in> set codes))
       \<and> filter_website_attrs rem' s1 r = (r, s1)"
proof -
  from assms(1) have c0: "memo_consistent s"
    by (simp add: memo_consistent_calls memo_consistent_new_Store)
  from assms have r: "r = filter (\<lambda>(k, v). k \<in> set codes) attribute_data" and s1: "s1 = s1'"
    by (simp_all add: filter_website_attrs_def)
  from assms(3) s1 have memo: "cached_website_attribute_codes s1 = Some codes"
    by (simp add: website_attribute_codes_memoized)
  from website_attribute_codes_result[OF c0 assms(3)] s1
  have scoped: "\<exists>al. cached_all_product_attributes s1 = Some al
      \<and> codes = map attribute_code (filter (\<lambda>attr. scope_attr attr = WEBSITE) al)"
    by simp
  have again: "filter_website_attrs rem' s1 r = (r, s1)"
    using website_attribute_codes_again[OF memo, of rem'] r
    by (simp add: filter_website_attrs_def)
  have sub: "distinct (map fst attribute_data) \<longrightarrow>
      (\<forall>k v. map_of r k = Some v \<longrightarrow> map_of attribute_data k = Some v \<and> k \<in> set codes)"
  proof (intro impI allI)
    fix k v
    assume d: "distinct (map fst attribute_data)" and m: "map_of r k = Some v"
    from m r have "map_of (filter (\<lambda>(k, v). k \<in> set codes) attribute_data) k = Some v" by simp
    from map_of_filter_keys[OF d this] have a: "map_of attribute_data k = Some v" .
    from m have "(k, v) \<in> set r" by (rule map_of_SomeD)
    with r have "k \<in> set codes" by simp
    with a show "map_of attribute_data k = Some v \<and> k \<in> set codes" by simp
  qed
  from r have "set r \<subseteq> set attribute_data" by auto
  moreover from r have "\<forall>(k, v)\<in>set r. k \<in> set codes" by auto
  ultimately show ?thesis using r sub again scoped by blast
qed

theorem filter_website_attrs_submapping_witness:
  "filter_website_attrs sample_remote new_Store [(''price'', ''12''), (''meta_title'', ''My Product'')]
     = ([(''price'', ''12'')], snd (website_attribute_codes sample_remote new_Store))
   \<and> website_attribute_codes sample_remote new_Store
     = ([''price''], snd (website_attribute_codes sample_remote new_Store))
   \<and> set [(''price'', ''12'')] \<subseteq> set [(''price'', ''12''), (''meta_title'', ''My Product'')]
   \<and> (\<exists>al. cached_all_product_attributes (snd (website_attribute_codes sample_remote new_Store))
               = Some al
             \<and> [''price''] = map attribute_code (filter (\<lambda>attr. scope_attr attr = WEBSITE) al))
   \<and> filter_website_attrs sample_remote (snd (website_attribute_codes sample_remote new_Store))
        [(''price'', ''12'')]
     = ([(''price'', ''12'')], snd (website_attribute_codes sample_remote new_Store))"
proof -
  have h2: "website_attribute_codes sample_remote new_Store
      = ([''price''], snd (website_attribute_codes sample_remote new_Store))"
    by (simp add: accessor_defs new_Store_def sample_remote_def Let_def)
  have h1: "filter_website_attrs sample_remote new_Store
        [(''price'', ''12''), (''meta_title'', ''My Product'')]
      = ([(''price'', ''12'')], snd (website_attribute_codes sample_remote new_Store))"
    by (simp add: filter_website_attrs_def accessor_defs new_Store_def sample_remote_def Let_def)
  have h0: "new_Store = calls sample_remote [] new_Store"
    by (simp add: calls_def)
  note t = filter_website_attrs_submapping [OF h0 h1 h2, of sample_remote]
  from t h1 h2 show ?thesis by blast
qed

section \<open>The retry counter\<close>

text \<open>
  The equations of the four functions are unfolded by name only, one call at a time.
\<close>

declare authenticate.simps [simp del] validate.simps [simp del] request.simps [simp del]
  token.simps [simp del]

lemmas run_defs =
  authenticate.simps validate.simps request.simps token.simps session_request.simps
  Retry_total_def numeral_3_eq_3 status_forcelist_def allowed_methods_def mounted_def
  lower_def lower_char_def Let_def transport_def logger_def
  url_for_def headers_def USER_CREDENTIALS_def ok_def truthy_def str_def upper_def upper_char_def
  scripted_def sample_client_def

lemma carried_refl: "carried c c"
  by (simp add: carried_def)

lemma carried_trans: "carried a b \<Longrightarrow> carried b c \<Longrightarrow> carried a c"
  by (auto simp: carried_def)

lemma carried_then_logger: "\<not> is_success r \<Longrightarrow> carried a c \<Longrightarrow> carried a (logger r c)"
  by (auto simp: carried_def logger_def successes_def)

lemma carried_then_transport:
  "carried a c \<Longrightarrow> transport srv rq c = (resp, c') \<Longrightarrow> carried a c'"
  by (auto simp: carried_def transport_def successes_def Let_def)

lemma carried_then_session:
  "carried a c \<Longrightarrow> session_request k srv rq c = (x, c') \<Longrightarrow> carried a c'"
proof (induction k arbitrary: c)
  case 0
  then show ?case
    by (auto split: prod.splits if_splits elim: carried_then_transport)
next
  case (Suc k)
  obtain resp c1 where t: "transport srv rq c = (resp, c1)"
    by (cases "transport srv rq c")
  with Suc.prems(1) have c1: "carried a c1" by (rule carried_then_transport)
  show ?case
  proof (cases "mounted (url_arg rq) \<and> method_arg rq \<in> set allowed_methods
      \<and> status_code resp \<in> set status_forcelist")
    case True
    with Suc.prems(2) t have "session_request k srv rq c1 = (x, c')" by simp
    with c1 show ?thesis by (rule Suc.IH)
  next
    case False
    with Suc.prems(2) t have "c' = c1" by auto
    with c1 show ?thesis by simp
  qed
qed

lemma token_carried:
  assumes IH: "\<And>c r c'. authenticate n srv c = Some (r, c') \<Longrightarrow> carried c c'"
    and "token (Suc n) srv c = Some (r, c')"
  shows "carried c c'"
  using assms(2)
  by (auto simp: token.simps carried_refl split: slot.splits if_splits option.splits sum.splits
      prod.splits dest: IH)

lemma validate_carried:
  assumes IH: "\<And>c m u p r c'. request n srv c m u p = Some (r, c') \<Longrightarrow> carried c c'"
    and "validate (Suc n) srv c = Some (r, c')"
  shows "carried c c'"
  using assms(2)
  by (auto simp: validate.simps is_success_def split: if_splits option.splits sum.splits prod.splits
      dest!: IH intro!: carried_then_logger)

lemma request_carried:
  assumes IHa: "\<And>c r c'. authenticate n srv c = Some (r, c') \<Longrightarrow> carried c c'"
    and IHr: "\<And>c m u p r c'. request n srv c m u p = Some (r, c') \<Longrightarrow> carried c c'"
    and IHt: "\<And>c r c'. token n srv c = Some (r, c') \<Longrightarrow> carried c c'"
    and run: "request (Suc n) srv c m u p = Some (r, c')"
  shows "carried c c'"
proof -
  define first where "first =
    (if upper m = ''GET'' \<or> upper m = ''DELETE'' then
           (case token n srv c of
              None \<Rightarrow> None
            | Some (Inl e, c1) \<Rightarrow> Some (Inl e, c1)
            | Some (Inr t, c1) \<Rightarrow>
                Some (session_request Retry_total srv
                  \<lparr>method_arg = upper m, url_arg = u, json_arg = None,
                   headers_arg = headers t c1\<rparr> c1))
         else if upper m = ''POST'' \<or> upper m = ''PUT'' then
           (if p \<noteq> None \<and> p \<noteq> Some [] then
              (case token n srv c of
                 None \<Rightarrow> None
               | Some (Inl e, c1) \<Rightarrow> Some (Inl e, c1)
               | Some (Inr t, c1) \<Rightarrow>
                   Some (session_request Retry_total srv
                     \<lparr>method_arg = upper m, url_arg = u, json_arg = p,
                      headers_arg = headers t c1\<rparr> c1))
            else Some (Inl (ValueError ''Must provide a non-empty payload''), c))
         else Some (Inl (ValueError ''Invalid request method provided''), c))"
  have first_carried: "carried c c2" if "first = Some (x, c2)" for x c2
    using that unfolding first_def
    by (auto simp: carried_refl split: if_splits option.splits sum.splits prod.splits
        dest!: IHt elim: carried_then_session)
  from run have run': "(case first of
        None \<Rightarrow> None
      | Some (Inl e, c2) \<Rightarrow> Some (Inl e, c2)
      | Some (Inr resp, c2) \<Rightarrow>
          if status_code resp = 401 then
            (case authenticate n srv (logger Attempting_to_reauthenticate c2) of
               None \<Rightarrow> None
             | Some (Inl e, c3) \<Rightarrow> Some (Inl e, c3)
             | Some (Inr b, c3) \<Rightarrow> request n srv c3 (upper m) u p)
          else if status_code resp \<noteq> 200
          then Some (Inr resp, logger (Request_failed u (status_code resp)) c2)
          else Some (Inr resp, c2)) = Some (r, c')"
    unfolding first_def by (simp add: request.simps Let_def)
  then obtain x c2 where f: "first = Some (x, c2)"
    by (cases first) auto
  note c2 = first_carried[OF f]
  show ?thesis
  proof (cases x)
    case (Inl e)
    with run' f have "c' = c2" by simp
    with c2 show ?thesis by simp
  next
    case (Inr resp)
    show ?thesis
    proof (cases "status_code resp = 401")
      case False
      with run' f Inr have "c' = c2 \<or> c' = logger (Request_failed u (status_code resp)) c2"
        by (auto split: if_splits)
      with c2 show ?thesis
        by (auto intro!: carried_then_logger simp: is_success_def)
    next
      case True
      have l: "carried c (logger Attempting_to_reauthenticate c2)"
        using c2 by (auto intro!: carried_then_logger simp: is_success_def)
      from run' f Inr True obtain ra c3 where
        a: "authenticate n srv (logger Attempting_to_reauthenticate c2) = Some (ra, c3)"
        by (auto split: option.splits)
      from IHa[OF a] l have c3: "carried c c3" by (rule carried_trans[rotated])
      show ?thesis
      proof (cases ra)
        case (Inl e)
        with run' f Inr True a have "c' = c3" by simp
        with c3 show ?thesis by simp
      next
        case (Inr b)
        with run' f \<open>x = Inr resp\<close> True a have "request n srv c3 (upper m) u p = Some (r, c')"
          by simp
        from IHr[OF this] c3 show ?thesis by (rule carried_trans[rotated])
      qed
    qed
  qed
qed

lemma authenticate_carried:
  assumes IHv: "\<And>c r c'. validate n srv c = Some (r, c') \<Longrightarrow> carried c c'"
    and run: "authenticate (Suc n) srv c = Some (r, c')"
  shows "carried c c'
       \<and> (authentication_retries c \<noteq> 3 \<and> successes c' = successes c
            \<longrightarrow> authentication_retries c + 1 \<le> authentication_retries c')
       \<and> ((\<exists>e. r = Inl e) \<or> (authentication_retries c' = 0 \<and> successes c < successes c'))"
proof (cases "authentication_retries c = 3")
  case True
  with run have "c' = c \<and> (\<exists>e. r = Inl e)" by (auto simp: authenticate.simps)
  with True show ?thesis by (auto simp: carried_refl)
next
  case False
  define c1 where "c1 = c\<lparr>authentication_retries := authentication_retries c + 1\<rparr>"
  have s1: "successes c1 = successes c" and r1: "authentication_retries c1 = authentication_retries c + 1"
    by (simp_all add: c1_def successes_def)
  have start: "carried c c1"
    using False by (simp add: carried_def s1 r1)
  have rest: "carried c1 c'
      \<and> ((\<exists>e. r = Inl e) \<or> (authentication_retries c' = 0 \<and> successes c1 < successes c'))"
  proof (cases "password c1 = None \<and> api_key c1 = None")
    case True
    with run False have "c' = c1 \<and> (\<exists>e. r = Inl e)"
      by (auto simp: authenticate.simps c1_def Let_def)
    then show ?thesis by (auto simp: carried_refl)
  next
    case nocreds: False
    then have creds: "(password c = None \<and> api_key c = None) = False"
      by (simp add: c1_def)
    have tail: "carried c1 c'
        \<and> ((\<exists>e. r = Inl e) \<or> (authentication_retries c' = 0 \<and> successes c1 < successes c'))"
      if c4: "carried c1 c4"
        and t: "(case validate n srv (logger Validating_token c4) of
                  None \<Rightarrow> None
                | Some (Inl e, c5) \<Rightarrow>
                    (case e of
                       AuthenticationError m r \<Rightarrow>
                         Some (Inl (AuthenticationError (Some ''Token validation failed'') None), c5)
                     | _ \<Rightarrow> Some (Inl e, c5))
                | Some (Inr v, c5) \<Rightarrow>
                    Some (Inr True,
                      (logger (Authenticated_successfully (domain c5)) c5)
                        \<lparr>authentication_retries := 0\<rparr>)) = Some (r, c')"
      for c4
    proof -
      have l: "carried c1 (logger Validating_token c4)"
        using c4 by (auto intro!: carried_then_logger simp: is_success_def)
      from t obtain rv c5 where
        v: "validate n srv (logger Validating_token c4) = Some (rv, c5)"
        by (auto split: option.splits)
      from IHv[OF v] l have c5: "carried c1 c5" by (rule carried_trans[rotated])
      show ?thesis
      proof (cases rv)
        case (Inl e)
        with t v have "c' = c5 \<and> (\<exists>e. r = Inl e)"
          by (auto split: py_error.splits)
        with c5 show ?thesis by auto
      next
        case (Inr b)
        with t v
        have "c' = (logger (Authenticated_successfully (domain c5)) c5)\<lparr>authentication_retries := 0\<rparr>"
          by simp
        with c5 show ?thesis
          by (auto simp: carried_def successes_def logger_def is_success_def)
      qed
    qed
    show ?thesis
    proof (cases "authentication_method c = TOKEN")
      case True
      have c4: "carried c1 (c1\<lparr>ACCESS_TOKEN := Present (api_key c1)\<rparr>)"
        by (simp add: carried_def successes_def)
      from run False creds True show ?thesis
        by (intro tail[OF c4]) (simp add: authenticate.simps Let_def c1_def)
    next
      case pw: False
      obtain resp c3 where tr: "transport srv
          \<lparr>method_arg = ''POST'', url_arg = url_for c1 ''integration/admin/token'' None,
           json_arg = Some (USER_CREDENTIALS c1),
           headers_arg = [(''Content-Type'', ''application/json''), (''User-Agent'', user_agent c1)]\<rparr>
          (logger (Authenticating (username c1) (domain c1)) c1) = (resp, c3)"
        by (cases "transport srv
          \<lparr>method_arg = ''POST'', url_arg = url_for c1 ''integration/admin/token'' None,
           json_arg = Some (USER_CREDENTIALS c1),
           headers_arg = [(''Content-Type'', ''application/json''), (''User-Agent'', user_agent c1)]\<rparr>
          (logger (Authenticating (username c1) (domain c1)) c1)")
      have c3: "carried c1 c3"
        using tr by (auto simp: carried_def successes_def logger_def transport_def Let_def
            is_success_def)
      show ?thesis
      proof (cases "ok resp")
        case False
        with run \<open>authentication_retries c \<noteq> 3\<close> creds pw tr have "c' = c3 \<and> (\<exists>e. r = Inl e)"
          by (auto simp: authenticate.simps Let_def c1_def)
        with c3 show ?thesis by auto
      next
        case True
        have c4: "carried c1 (c3\<lparr>ACCESS_TOKEN := Present (json resp)\<rparr>)"
          using c3 by (simp add: carried_def successes_def)
        from run \<open>authentication_retries c \<noteq> 3\<close> creds pw tr True show ?thesis
          by (intro tail[OF c4]) (simp add: authenticate.simps Let_def c1_def)
      qed
    qed
  qed
  from start rest have "carried c c'" by (blast intro: carried_trans)
  moreover have "authentication_retries c + 1 \<le> authentication_retries c'"
    if "successes c' = successes c"
    using that rest s1 r1 by (simp add: carried_def)
  ultimately show ?thesis using rest s1 by auto
qed

lemma all_carried:
  "(\<forall>c r c'. authenticate n srv c = Some (r, c') \<longrightarrow> carried c c')
   \<and> (\<forall>c r c'. validate n srv c = Some (r, c') \<longrightarrow> carried c c')
   \<and> (\<forall>c m u p r c'. request n srv c m u p = Some (r, c') \<longrightarrow> carried c c')
   \<and> (\<forall>c r c'. token n srv c = Some (r, c') \<longrightarrow> carried c c')"
proof (induction n)
  case 0
  show ?case by (simp add: authenticate.simps validate.simps request.simps token.simps)
next
  case (Suc n)
  then have IHa: "\<And>c r c'. authenticate n srv c = Some (r, c') \<Longrightarrow> carried c c'"
    and IHv: "\<And>c r c'. validate n srv c = Some (r, c') \<Longrightarrow> carried c c'"
    and IHr: "\<And>c m u p r c'. request n srv c m u p = Some (r, c') \<Longrightarrow> carried c c'"
    and IHt: "\<And>c r c'. token n srv c = Some (r, c') \<Longrightarrow> carried c c'"
    by blast+
  show ?case
  proof (intro conjI allI impI)
    fix c r c' assume "authenticate (Suc n) srv c = Some (r, c')"
    from authenticate_carried[OF IHv this] show "carried c c'" by simp
  next
    fix c r c' assume "validate (Suc n) srv c = Some (r, c')"
    from validate_carried[OF IHr this] show "carried c c'" .
  next
    fix c m u p r c' assume "request (Suc n) srv c m u p = Some (r, c')"
    from request_carried[OF IHa IHr IHt this] show "carried c c'" .
  next
    fix c r c' assume "token (Suc n) srv c = Some (r, c')"
    from token_carried[OF IHa this] show "carried c c'" .
  qed
qed

lemma authenticate_counts:
  assumes "authenticate n srv c = Some (r, c')"
  shows "carried c c'
       \<and> (authentication_retries c \<noteq> 3 \<and> successes c' = successes c
            \<longrightarrow> authentication_retries c + 1 \<le> authentication_retries c')
       \<and> ((\<exists>e. r = Inl e) \<or> (authentication_retries c' = 0 \<and> successes c < successes c'))"
proof (cases n)
  case 0
  with assms show ?thesis by (simp add: authenticate.simps)
next
  case (Suc m)
  show ?thesis
  proof (rule authenticate_carried)
    show "\<And>c r c'. validate m srv c = Some (r, c') \<Longrightarrow> carried c c'"
      using all_carried[of m srv] by blast
    show "authenticate (Suc m) srv c = Some (r, c')"
      using assms Suc by simp
  qed
qed

lemma authenticate_exhausted:
  "authentication_retries c = 3 \<Longrightarrow>
   authenticate (Suc n) srv c
     = Some (Inl (ValueError ''Max attends of authentication attempts exceeded''), c)"
  by (simp add: authenticate.simps)

lemma authenticate_failed_step:
  assumes "authenticate n srv c = Some (Inl e, c')"
    and "successes c' = successes c"
    and "authentication_retries c \<le> 3"
  shows "authentication_retries c' \<le> 3
       \<and> (authentication_retries c = 3 \<longrightarrow> authentication_retries c' = 3)
       \<and> (authentication_retries c \<noteq> 3 \<longrightarrow> authentication_retries c + 1 \<le> authentication_retries c')"
  using authenticate_counts[OF assms(1)] assms(2,3)
  by (auto simp: carried_def)

text \<open>
  Claim C9, as the code has it. A call of \<^verbatim>\<open>authenticate\<close> that finds the counter at
  3 raises the \<^verbatim>\<open>ValueError\<close> of exhausted attempts and leaves the client as it was, so
  nothing is sent. A call that succeeds leaves the counter at 0. A call that finds the
  counter below 3 and ends without any authentication having succeeded in the meantime, a
  re-authentication inside the call included, has failed and leaves the counter at least one
  higher: every such call increments it, and nothing but a success resets it. Hence after
  three failed calls in a row that start from a counter of 0, with no successful
  authentication in between, the counter is 3 and a fourth call fails at once without a
  request.
\<close>

theorem authentication_retry_counter:
  "(authentication_retries c = 3 \<longrightarrow>
      authenticate (Suc n) srv c
        = Some (Inl (ValueError ''Max attends of authentication attempts exceeded''), c))
   \<and> (authenticate n srv c = Some (Inr b, c') \<longrightarrow>
        authentication_retries c' = 0 \<and> successes c < successes c')
   \<and> (authenticate n srv c = Some (r, c') \<and> authentication_retries c \<noteq> 3
        \<and> successes c' = successes c \<longrightarrow>
        (\<exists>e. r = Inl e) \<and> authentication_retries c + 1 \<le> authentication_retries c')
   \<and> (authentication_retries c0 = 0
        \<and> authenticate n1 srv1 c0 = Some (Inl e1, c1)
        \<and> authenticate n2 srv2 c1 = Some (Inl e2, c2)
        \<and> authenticate n3 srv3 c2 = Some (Inl e3, c3)
        \<and> successes c3 = successes c0 \<longrightarrow>
        authentication_retries c3 = 3
        \<and> authenticate (Suc n4) srv4 c3
            = Some (Inl (ValueError ''Max attends of authentication attempts exceeded''), c3))"
proof -
  have g1: "authentication_retries c = 3 \<longrightarrow>
      authenticate (Suc n) srv c
        = Some (Inl (ValueError ''Max attends of authentication attempts exceeded''), c)"
    by (simp add: authenticate_exhausted)
  have g2: "authenticate n srv c = Some (Inr b, c') \<longrightarrow>
        authentication_retries c' = 0 \<and> successes c < successes c'"
  proof
    assume "authenticate n srv c = Some (Inr b, c')"
    from authenticate_counts[OF this]
    show "authentication_retries c' = 0 \<and> successes c < successes c'" by simp
  qed
  have g3: "authenticate n srv c = Some (r, c') \<and> authentication_retries c \<noteq> 3
        \<and> successes c' = successes c \<longrightarrow>
        (\<exists>e. r = Inl e) \<and> authentication_retries c + 1 \<le> authentication_retries c'"
  proof
    assume h: "authenticate n srv c = Some (r, c') \<and> authentication_retries c \<noteq> 3
        \<and> successes c' = successes c"
    then have "authenticate n srv c = Some (r, c')" by simp
    from authenticate_counts[OF this] h
    show "(\<exists>e. r = Inl e) \<and> authentication_retries c + 1 \<le> authentication_retries c'"
      by auto
  qed
  have g4: "authentication_retries c0 = 0
        \<and> authenticate n1 srv1 c0 = Some (Inl e1, c1)
        \<and> authenticate n2 srv2 c1 = Some (Inl e2, c2)
        \<and> authenticate n3 srv3 c2 = Some (Inl e3, c3)
        \<and> successes c3 = successes c0 \<longrightarrow>
        authentication_retries c3 = 3
        \<and> authenticate (Suc n4) srv4 c3
            = Some (Inl (ValueError ''Max attends of authentication attempts exceeded''), c3)"
  proof
    assume h: "authentication_retries c0 = 0
        \<and> authenticate n1 srv1 c0 = Some (Inl e1, c1)
        \<and> authenticate n2 srv2 c1 = Some (Inl e2, c2)
        \<and> authenticate n3 srv3 c2 = Some (Inl e3, c3)
        \<and> successes c3 = successes c0"
    then have a1: "authenticate n1 srv1 c0 = Some (Inl e1, c1)"
      and a2: "authenticate n2 srv2 c1 = Some (Inl e2, c2)"
      and a3: "authenticate n3 srv3 c2 = Some (Inl e3, c3)"
      and z: "authentication_retries c0 = 0" and s: "successes c3 = successes c0"
      by simp_all
    from authenticate_counts[OF a1] authenticate_counts[OF a2] authenticate_counts[OF a3] s
    have s1: "successes c1 = successes c0" and s2: "successes c2 = successes c1"
      and s3: "successes c3 = successes c2"
      by (auto simp: carried_def)
    from z have b0: "authentication_retries c0 \<le> 3" by simp
    note f1 = authenticate_failed_step[OF a1 s1 b0]
    then have b1: "authentication_retries c1 \<le> 3" by simp
    note f2 = authenticate_failed_step[OF a2 s2 b1]
    then have b2: "authentication_retries c2 \<le> 3" by simp
    note f3 = authenticate_failed_step[OF a3 s3 b2]
    from z f1 f2 f3 have three: "authentication_retries c3 = 3" by linarith
    then show "authentication_retries c3 = 3
        \<and> authenticate (Suc n4) srv4 c3
            = Some (Inl (ValueError ''Max attends of authentication attempts exceeded''), c3)"
      by (simp add: authenticate_exhausted)
  qed
  show ?thesis by (intro conjI) (rule g1 g2 g3 g4)+
qed

theorem authentication_retry_counter_witness:
  "authentication_retries sample_client = 0
   \<and> authenticate (Suc 0)
        (scripted [\<lparr>status_code = 401, json = None\<rparr>, \<lparr>status_code = 401, json = None\<rparr>,
                   \<lparr>status_code = 401, json = None\<rparr>])
        sample_client
      = Some (Inl (AuthenticationError None (Some \<lparr>status_code = 401, json = None\<rparr>)),
          sample_client\<lparr>authentication_retries := 1, sent := [sample_login],
            log := [Authenticating (Some ''user'') ''domain.com'']\<rparr>)
   \<and> authenticate (Suc 0)
        (scripted [\<lparr>status_code = 401, json = None\<rparr>, \<lparr>status_code = 401, json = None\<rparr>,
                   \<lparr>status_code = 401, json = None\<rparr>])
        (sample_client\<lparr>authentication_retries := 1, sent := [sample_login],
            log := [Authenticating (Some ''user'') ''domain.com'']\<rparr>)
      = Some (Inl (AuthenticationError None (Some \<lparr>status_code = 401, json = None\<rparr>)),
          sample_client\<lparr>authentication_retries := 2, sent := [sample_login, sample_login],
            log := [Authenticating (Some ''user'') ''domain.com'',
                    Authenticating (Some ''user'') ''domain.com'']\<rparr>)
   \<and> authenticate (Suc 0)
        (scripted [\<lparr>status_code = 401, json = None\<rparr>, \<lparr>status_code = 401, json = None\<rparr>,
                   \<lparr>status_code = 401, json = None\<rparr>])
        (sample_client\<lparr>authentication_retries := 2, sent := [sample_login, sample_login],
            log := [Authenticating (Some ''user'') ''domain.com'',
                    Authenticating (Some ''user'') ''domain.com'']\<rparr>)
      = Some (Inl (AuthenticationError None (Some \<lparr>status_code = 401, json = None\<rparr>)),
          sample_client\<lparr>authentication_retries := 3,
            sent := [sample_login, sample_login, sample_login],
            log := [Authenticating (Some ''user'') ''domain.com'',
                    Authenticating (Some ''user'') ''domain.com'',
                    Authenticating (Some ''user'') ''domain.com'']\<rparr>)
   \<and> authenticate (Suc 0)
        (scripted [\<lparr>status_code = 401, json = None\<rparr>, \<lparr>status_code = 401, json = None\<rparr>,
                   \<lparr>status_code = 401, json = None\<rparr>])
        (sample_client\<lparr>authentication_retries := 3,
            sent := [sample_login, sample_login, sample_login],
            log := [Authenticating (Some ''user'') ''domain.com'',
                    Authenticating (Some ''user'') ''domain.com'',
                    Authenticating (Some ''user'') ''domain.com'']\<rparr>)
      = Some (Inl (ValueError ''Max attends of authentication attempts exceeded''),
          sample_client\<lparr>authentication_retries := 3,
            sent := [sample_login, sample_login, sample_login],
            log := [Authenticating (Some ''user'') ''domain.com'',
                    Authenticating (Some ''user'') ''domain.com'',
                    Authenticating (Some ''user'') ''domain.com'']\<rparr>)"
proof -
  let ?srv = "scripted [\<lparr>status_code = 401, json = None\<rparr>, \<lparr>status_code = 401, json = None\<rparr>,
                   \<lparr>status_code = 401, json = None\<rparr>]"
  let ?e = "AuthenticationError None (Some \<lparr>status_code = 401, json = None\<rparr>)"
  let ?c1 = "sample_client\<lparr>authentication_retries := 1, sent := [sample_login],
            log := [Authenticating (Some ''user'') ''domain.com'']\<rparr>"
  let ?c2 = "sample_client\<lparr>authentication_retries := 2, sent := [sample_login, sample_login],
            log := [Authenticating (Some ''user'') ''domain.com'',
                    Authenticating (Some ''user'') ''domain.com'']\<rparr>"
  let ?c3 = "sample_client\<lparr>authentication_retries := 3,
            sent := [sample_login, sample_login, sample_login],
            log := [Authenticating (Some ''user'') ''domain.com'',
                    Authenticating (Some ''user'') ''domain.com'',
                    Authenticating (Some ''user'') ''domain.com'']\<rparr>"
  have h0: "authentication_retries sample_client = 0"
    by (simp add: sample_client_def)
  have h1: "authenticate (Suc 0) ?srv sample_client = Some (Inl ?e, ?c1)"
    by (simp add: run_defs sample_login_def)
  have h2: "authenticate (Suc 0) ?srv ?c1 = Some (Inl ?e, ?c2)"
    by (simp add: run_defs sample_login_def)
  have h3: "authenticate (Suc 0) ?srv ?c2 = Some (Inl ?e, ?c3)"
    by (simp add: run_defs sample_login_def)
  have hs: "successes ?c3 = successes sample_client"
    by (simp add: successes_def is_success_def sample_client_def)
  note t = authentication_retry_counter [where ?c0.0 = sample_client and ?c1.0 = ?c1
      and ?c2.0 = ?c2 and ?c3.0 = ?c3 and ?n1.0 = "Suc 0" and ?n2.0 = "Suc 0" and ?n3.0 = "Suc 0"
      and ?n4.0 = 0 and ?srv1.0 = ?srv and ?srv2.0 = ?srv and ?srv3.0 = ?srv and ?srv4.0 = ?srv
      and ?e1.0 = ?e and ?e2.0 = ?e and ?e3.0 = ?e
      and c = ?c3 and n = 0 and srv = ?srv and c' = ?c3 and b = True and r = "Inl ?e"]
  from t h0 h1 h2 h3 hs
  have "authenticate (Suc 0) ?srv ?c3
      = Some (Inl (ValueError ''Max attends of authentication attempts exceeded''), ?c3)"
    by blast
  with h0 h1 h2 h3 show ?thesis by blast
qed

text \<open>
  Claim C9, as the spec states it, fails: a failed call can leave the counter at 0. When the
  validation is answered 401, \<^verbatim>\<open>request\<close> authenticates again; that authentication
  succeeds and resets the counter, and the replay of the validation is answered 500, so the
  outer call raises. After three such failed calls the counter is 0 and a fourth call sends
  its two requests and succeeds.
\<close>

theorem nested_success_resets_counter_counterexample:
  "(case authenticate (Suc (Suc (Suc (Suc (Suc (Suc (Suc 0))))))) failing_thrice sample_client of
      Some (Inl e1, c1) \<Rightarrow>
        (case authenticate (Suc (Suc (Suc (Suc (Suc (Suc (Suc 0))))))) failing_thrice c1 of
           Some (Inl e2, c2) \<Rightarrow>
             (case authenticate (Suc (Suc (Suc (Suc (Suc (Suc (Suc 0))))))) failing_thrice c2 of
                Some (Inl e3, c3) \<Rightarrow>
                  authentication_retries c3 = 0
                  \<and> length (sent c3) = 15
                  \<and> (case authenticate (Suc (Suc (Suc (Suc 0)))) failing_thrice c3 of
                        Some (Inr b, c4) \<Rightarrow> length (sent c4) = 17
                      | _ \<Rightarrow> False)
              | _ \<Rightarrow> False)
         | _ \<Rightarrow> False)
    | _ \<Rightarrow> False)"
  by (simp add: run_defs failing_thrice_def)

section \<open>Authentication without credentials\<close>

text \<open>
  Claim C8. With neither password nor API key, \<^verbatim>\<open>authenticate\<close> raises a
  \<^verbatim>\<open>ValueError\<close> and sends nothing: the error of missing credentials, or, when the
  counter already stands at 3, the error of exhausted attempts.
\<close>

theorem authenticate_without_credentials:
  assumes "password c = None" and "api_key c = None"
  shows "(authentication_retries c \<noteq> 3 \<longrightarrow>
          authenticate (Suc n) srv c
            = Some (Inl (ValueError ''Ether password or api key must be provided.''),
                    c\<lparr>authentication_retries := authentication_retries c + 1\<rparr>))
       \<and> (authentication_retries c = 3 \<longrightarrow>
          authenticate (Suc n) srv c
            = Some (Inl (ValueError ''Max attends of authentication attempts exceeded''), c))
       \<and> (\<exists>msg c'. authenticate (Suc n) srv c = Some (Inl (ValueError msg), c')
             \<and> sent c' = sent c)"
  using assms by (auto simp: authenticate.simps Let_def)

theorem authenticate_without_credentials_witness:
  "password (sample_client\<lparr>password := None\<rparr>) = None
   \<and> api_key (sample_client\<lparr>password := None\<rparr>) = None
   \<and> authenticate (Suc 0) (scripted []) (sample_client\<lparr>password := None\<rparr>)
       = Some (Inl (ValueError ''Ether password or api key must be provided.''),
               sample_client\<lparr>password := None, authentication_retries := 1\<rparr>)
   \<and> authenticate (Suc 0) (scripted []) (sample_client\<lparr>password := None, authentication_retries := 3\<rparr>)
       = Some (Inl (ValueError ''Max attends of authentication attempts exceeded''),
               sample_client\<lparr>password := None, authentication_retries := 3\<rparr>)"
  using authenticate_without_credentials [of "sample_client\<lparr>password := None\<rparr>" 0 "scripted []"]
    authenticate_without_credentials
      [of "sample_client\<lparr>password := None, authentication_retries := 3\<rparr>" 0 "scripted []"]
  by (simp add: sample_client_def)

section \<open>Requests answered 401\<close>

lemma upper_methods:
  "upper ''GET'' = ''GET''" "upper ''DELETE'' = ''DELETE''"
  "upper ''POST'' = ''POST''" "upper ''PUT'' = ''PUT''"
  by (simp_all add: upper_def upper_char_def)

lemma token_stored:
  "ACCESS_TOKEN c = Present t \<Longrightarrow> truthy t \<Longrightarrow> token (Suc n) srv c = Some (Inr t, c)"
  by (simp add: token.simps)

lemma session_request_once:
  "method_arg rq \<notin> set allowed_methods \<Longrightarrow>
   session_request k srv rq c = (Inr (srv (sent c @ [rq])), c\<lparr>sent := sent c @ [rq]\<rparr>)"
  by (cases k) (simp_all add: transport_def Let_def)

text \<open>
  The first exchange of a \<^verbatim>\<open>GET\<close> or \<^verbatim>\<open>DELETE\<close> request, for a client that holds a
  token.
\<close>

lemma request_first_exchange:
  assumes tok: "ACCESS_TOKEN c = Present t" "truthy t"
    and m: "m = upper method0"
    and reading: "m = ''GET'' \<or> m = ''DELETE''"
    and rq: "rq = \<lparr>method_arg = m, url_arg = url0, json_arg = None, headers_arg = headers t c\<rparr>"
    and resp: "resp = srv (sent c @ [rq])"
    and c2: "c2 = c\<lparr>sent := sent c @ [rq]\<rparr>"
  shows "request (Suc (Suc n)) srv c method0 url0 payload0 =
          (if status_code resp = 401 then
             (case authenticate (Suc n) srv (logger Attempting_to_reauthenticate c2) of
                None \<Rightarrow> None
              | Some (Inl e, c3) \<Rightarrow> Some (Inl e, c3)
              | Some (Inr b, c3) \<Rightarrow> request (Suc n) srv c3 m url0 payload0)
           else if status_code resp \<noteq> 200
           then Some (Inr resp, logger (Request_failed url0 (status_code resp)) c2)
           else Some (Inr resp, c2))"
proof -
  note tk = token_stored[OF tok, of n srv]
  from reading have cond: "(upper method0 = ''GET'' \<or> upper method0 = ''DELETE'') = True"
    using m by simp
  from reading have once: "session_request Retry_total srv
      \<lparr>method_arg = upper method0, url_arg = url0, json_arg = None, headers_arg = headers t c\<rparr> c
      = (Inr (srv (sent c @ [\<lparr>method_arg = upper method0, url_arg = url0, json_arg = None,
                 headers_arg = headers t c\<rparr>])),
         c\<lparr>sent := sent c @ [\<lparr>method_arg = upper method0, url_arg = url0, json_arg = None,
                 headers_arg = headers t c\<rparr>]\<rparr>)"
    unfolding m [symmetric]
    by (intro session_request_once) (auto simp: allowed_methods_def)
  show ?thesis
    unfolding request.simps(2) [of "Suc n"] Let_def rq resp c2 m
    using reading by (simp add: cond tk once m)
qed

lemma url_for_same:
  "scope c' = scope c \<Longrightarrow> BASE_URL c' = BASE_URL c \<Longrightarrow> url_for c' e s = url_for c e s"
  by (simp add: url_for_def)

lemma url_for_retries:
  "url_for (c\<lparr>authentication_retries := k\<rparr>) e s = url_for c e s"
  by (simp add: url_for_def)

lemma USER_CREDENTIALS_retries:
  "USER_CREDENTIALS (c\<lparr>authentication_retries := k\<rparr>) = USER_CREDENTIALS c"
  by (simp add: USER_CREDENTIALS_def)

lemma unauthorized_answers:
  "url_arg rq = u \<Longrightarrow> always_unauthorized u (reqs @ [rq]) = \<lparr>status_code = 401, json = None\<rparr>"
  "url_arg rq \<noteq> u \<Longrightarrow> always_unauthorized u (reqs @ [rq]) = \<lparr>status_code = 200, json = Some ''tok''\<rparr>"
  by (simp_all add: always_unauthorized_def)

text \<open>
  Against this server an authentication of a password client either runs out of depth or
  succeeds, and a success leaves the counter at 0 and a token stored.
\<close>

lemma authenticate_accepted:
  assumes b: "BASE_URL c = ''https://domain.com/rest/V1/''" and sc: "scope c = []"
    and pw: "password c \<noteq> None" and am: "authentication_method c = PASSWORD"
    and r: "authentication_retries c \<noteq> 3"
  shows "authenticate n (always_unauthorized ''https://domain.com/rest/V1/orders/1'') c = None
       \<or> (\<exists>c'. authenticate n (always_unauthorized ''https://domain.com/rest/V1/orders/1'') c
                  = Some (Inr True, c')
              \<and> BASE_URL c' = BASE_URL c \<and> scope c' = [] \<and> password c' = password c
              \<and> authentication_method c' = PASSWORD \<and> authentication_retries c' = 0
              \<and> ACCESS_TOKEN c' = Present (Some ''tok''))"
proof -
  let ?srv = "always_unauthorized ''https://domain.com/rest/V1/orders/1''"
  from pw have creds: "(password c = None \<and> api_key c = None) = False" by simp
  have u1: "url_for c ''integration/admin/token'' None
      = ''https://domain.com/rest/V1/integration/admin/token''"
    and u2: "url_for c ''store/websites'' None = ''https://domain.com/rest/V1/store/websites''"
    by (simp_all add: url_for_def b sc truthy_def)
  define login where "login = \<lparr>method_arg = ''POST'',
      url_arg = ''https://domain.com/rest/V1/integration/admin/token'',
      json_arg = Some (USER_CREDENTIALS c),
      headers_arg = [(''Content-Type'', ''application/json''), (''User-Agent'', user_agent c)]\<rparr>"
  define c5 where "c5 = logger Validating_token
    (c\<lparr>authentication_retries := authentication_retries c + 1,
       log := log c @ [Authenticating (username c) (domain c)],
       sent := sent c @ [login],
       ACCESS_TOKEN := Present (Some ''tok'')\<rparr>)"
  have a: "authenticate (Suc k) ?srv c
      = (case validate k ?srv c5 of
                  None \<Rightarrow> None
                | Some (Inl e, c5) \<Rightarrow>
                    (case e of
                       AuthenticationError m r \<Rightarrow>
                         Some (Inl (AuthenticationError (Some ''Token validation failed'') None), c5)
                     | _ \<Rightarrow> Some (Inl e, c5))
                | Some (Inr v, c5) \<Rightarrow>
                    Some (Inr True,
                      (logger (Authenticated_successfully (domain c5)) c5)
                        \<lparr>authentication_retries := 0\<rparr>))" for k
    unfolding authenticate.simps(2) [of k] c5_def login_def
    using r am
    by (simp add: creds Let_def transport_def logger_def url_for_retries USER_CREDENTIALS_retries
        u1 unauthorized_answers ok_def)
  have tok5: "ACCESS_TOKEN c5 = Present (Some ''tok'')" "truthy (Some ''tok'')"
    by (simp_all add: c5_def logger_def truthy_def)
  have u5: "url_for c5 ''store/websites'' None = ''https://domain.com/rest/V1/store/websites''"
  proof -
    have "url_for c5 ''store/websites'' None = url_for c ''store/websites'' None"
      by (rule url_for_same) (simp_all add: c5_def logger_def)
    with u2 show ?thesis by simp
  qed
  define check where "check = \<lparr>method_arg = ''GET'',
      url_arg = ''https://domain.com/rest/V1/store/websites'', json_arg = None,
      headers_arg = headers (Some ''tok'') c5\<rparr>"
  have rq5: "check = \<lparr>method_arg = ''GET'', url_arg = url_for c5 ''store/websites'' None,
      json_arg = None, headers_arg = headers (Some ''tok'') c5\<rparr>"
    by (simp add: check_def u5)
  have resp5: "?srv (sent c5 @ [check]) = \<lparr>status_code = 200, json = Some ''tok''\<rparr>"
    by (rule unauthorized_answers(2)) (simp add: check_def)
  have rqk: "request (Suc (Suc k)) ?srv c5 ''GET'' (url_for c5 ''store/websites'' None) None
      = Some (Inr \<lparr>status_code = 200, json = Some ''tok''\<rparr>, c5\<lparr>sent := sent c5 @ [check]\<rparr>)" for k
    unfolding request_first_exchange [where srv = ?srv and c = c5 and t = "Some ''tok''"
        and m = "''GET''" and ?method0.0 = "''GET''" and ?payload0.0 = None
        and ?url0.0 = "url_for c5 ''store/websites'' None" and rq = check and n = k,
        OF tok5 upper_methods(1) [symmetric] disjI1 [OF refl] rq5 refl refl]
    by (simp add: resp5)
  have vk: "validate (Suc (Suc (Suc k))) ?srv c5
      = Some (Inr True, logger (Token_validated (username c5) (domain c5))
          (c5\<lparr>sent := sent c5 @ [check]\<rparr>))" for k
    unfolding validate.simps(2) [of "Suc (Suc k)"] rqk by (simp add: logger_def)
  have v0: "validate 0 ?srv c5 = None" "validate (Suc 0) ?srv c5 = None"
    "validate (Suc (Suc 0)) ?srv c5 = None"
    by (simp_all add: validate.simps request.simps token.simps upper_methods)
  consider "n = 0" | "n = Suc 0" | "n = Suc (Suc 0)" | "n = Suc (Suc (Suc 0))"
    | k where "n = Suc (Suc (Suc (Suc k)))"
    by (metis not0_implies_Suc)
  then show ?thesis
  proof cases
    case 1
    then show ?thesis by (simp add: authenticate.simps)
  next
    case 2
    then show ?thesis unfolding 2 a by (simp add: v0)
  next
    case 3
    then show ?thesis unfolding 3 a by (simp add: v0)
  next
    case 4
    then show ?thesis unfolding 4 a by (simp add: v0)
  next
    case (5 k)
    show ?thesis
      unfolding 5 a vk
      by (simp add: logger_def c5_def sc am)
  qed
qed

lemma request_unauthorized_forever:
  assumes "BASE_URL c = ''https://domain.com/rest/V1/''" and "scope c = []"
    and "password c \<noteq> None" and "authentication_method c = PASSWORD"
    and "authentication_retries c = 0" and "ACCESS_TOKEN c = Present (Some ''tok'')"
  shows "request n (always_unauthorized ''https://domain.com/rest/V1/orders/1'') c
           ''GET'' ''https://domain.com/rest/V1/orders/1'' None = None"
  using assms
proof (induction n arbitrary: c)
  case 0
  show ?case by (simp add: request.simps)
next
  case (Suc n)
  let ?srv = "always_unauthorized ''https://domain.com/rest/V1/orders/1''"
  let ?u = "''https://domain.com/rest/V1/orders/1''"
  show ?case
  proof (cases n)
    case 0
    then show ?thesis
      by (simp add: request.simps token.simps upper_methods)
  next
    case (Suc k)
    define rq where "rq = \<lparr>method_arg = ''GET'', url_arg = ?u, json_arg = None,
        headers_arg = headers (Some ''tok'') c\<rparr>"
    define c1 where "c1 = logger Attempting_to_reauthenticate (c\<lparr>sent := sent c @ [rq]\<rparr>)"
    have tok: "ACCESS_TOKEN c = Present (Some ''tok'')" "truthy (Some ''tok'')"
      using Suc.prems by (simp_all add: truthy_def)
    have resp: "?srv (sent c @ [rq]) = \<lparr>status_code = 401, json = None\<rparr>"
      by (rule unauthorized_answers(1)) (simp add: rq_def)
    have eq: "request (Suc (Suc k)) ?srv c ''GET'' ?u None =
        (case authenticate (Suc k) ?srv c1 of
           None \<Rightarrow> None
         | Some (Inl e, c3) \<Rightarrow> Some (Inl e, c3)
         | Some (Inr b, c3) \<Rightarrow> request (Suc k) ?srv c3 ''GET'' ?u None)"
      unfolding request_first_exchange [where srv = ?srv and c = c and t = "Some ''tok''"
          and m = "''GET''" and ?method0.0 = "''GET''" and ?payload0.0 = None
          and ?url0.0 = ?u and rq = rq and n = k,
          OF tok upper_methods(1) [symmetric] disjI1 [OF refl] rq_def refl refl] c1_def
      by (simp add: resp)
    have g1: "BASE_URL c1 = ''https://domain.com/rest/V1/''" "scope c1 = []"
      "password c1 \<noteq> None" "authentication_method c1 = PASSWORD"
      "authentication_retries c1 \<noteq> 3"
      using Suc.prems by (simp_all add: c1_def logger_def)
    from authenticate_accepted [OF g1, of "Suc k"]
    show ?thesis
    proof
      assume "authenticate (Suc k) ?srv c1 = None"
      then show ?thesis unfolding \<open>n = Suc k\<close> eq by simp
    next
      assume "\<exists>c'. authenticate (Suc k) ?srv c1 = Some (Inr True, c')
              \<and> BASE_URL c' = BASE_URL c1 \<and> scope c' = [] \<and> password c' = password c1
              \<and> authentication_method c' = PASSWORD \<and> authentication_retries c' = 0
              \<and> ACCESS_TOKEN c' = Present (Some ''tok'')"
      then obtain c' where a: "authenticate (Suc k) ?srv c1 = Some (Inr True, c')"
        and g: "BASE_URL c' = BASE_URL c1" "scope c' = []" "password c' = password c1"
          "authentication_method c' = PASSWORD" "authentication_retries c' = 0"
          "ACCESS_TOKEN c' = Present (Some ''tok'')"
        by blast
      from g g1 have "request n ?srv c' ''GET'' ?u None = None"
        by (intro Suc.IH) simp_all
      then show ?thesis unfolding \<open>n = Suc k\<close> eq a by simp
    qed
  qed
qed

text \<open>
  Claim C4 does not hold of the code. Against a server that answers the requested url with 401
  every time and accepts every login and validation, each re-authentication succeeds and
  resets the retry counter, and \<^verbatim>\<open>request\<close> calls itself again: whatever depth of calls it
  is given, it does not come back, neither with a response nor with an
  \<^verbatim>\<open>AuthenticationError\<close>.
\<close>

theorem request_never_returns:
  "request n (always_unauthorized ''https://domain.com/rest/V1/orders/1'')
     (sample_client\<lparr>ACCESS_TOKEN := Present (Some ''tok'')\<rparr>)
     ''GET'' ''https://domain.com/rest/V1/orders/1'' None = None"
  by (rule request_unauthorized_forever) (simp_all add: sample_client_def)

section \<open>Validation after login\<close>

text \<open>
  Claim C3, as the code has it. When the login succeeds with a non-empty token and the
  validation request is answered with a status other than 200 and 401, \<^verbatim>\<open>authenticate\<close>
  raises \<^verbatim>\<open>AuthenticationError\<close> and the counter stays incremented, but the token of the
  login stays in \<^verbatim>\<open>ACCESS_TOKEN\<close>: the \<^verbatim>\<open>token\<close> property returns it afterwards without
  authenticating again.
\<close>

theorem authenticate_validation_rejected:
  assumes gate: "authentication_retries c \<noteq> 3"
    and creds: "password c \<noteq> None \<or> api_key c \<noteq> None"
    and pw: "authentication_method c = PASSWORD"
    and login: "login = \<lparr>method_arg = ''POST'', url_arg = url_for c ''integration/admin/token'' None,
        json_arg = Some (USER_CREDENTIALS c),
        headers_arg = [(''Content-Type'', ''application/json''), (''User-Agent'', user_agent c)]\<rparr>"
    and accepted: "ok (srv (sent c @ [login]))"
    and t: "t = json (srv (sent c @ [login]))" "truthy t"
    and check: "check = \<lparr>method_arg = ''GET'', url_arg = url_for c ''store/websites'' None,
        json_arg = None, headers_arg = headers t c\<rparr>"
    and rejected: "status_code (srv (sent c @ [login, check])) \<noteq> 200"
      "status_code (srv (sent c @ [login, check])) \<noteq> 401"
    and c': "c' = c\<lparr>authentication_retries := authentication_retries c + 1,
        ACCESS_TOKEN := Present t,
        sent := sent c @ [login, check],
        log := log c @ [Authenticating (username c) (domain c), Validating_token,
          Request_failed (url_for c ''store/websites'' None)
            (status_code (srv (sent c @ [login, check])))]\<rparr>"
  shows "authenticate (Suc (Suc (Suc (Suc n)))) srv c
           = Some (Inl (AuthenticationError (Some ''Token validation failed'') None), c')
       \<and> authentication_retries c' = authentication_retries c + 1
       \<and> ACCESS_TOKEN c' = Present t
       \<and> token (Suc k) srv c' = Some (Inr t, c')"
proof -
  define c5 where "c5 = logger Validating_token
    (c\<lparr>authentication_retries := authentication_retries c + 1,
       log := log c @ [Authenticating (username c) (domain c)],
       sent := sent c @ [login],
       ACCESS_TOKEN := Present t\<rparr>)"
  have tok5: "ACCESS_TOKEN c5 = Present t"
    by (simp add: c5_def logger_def)
  have u5: "url_for c5 ''store/websites'' None = url_for c ''store/websites'' None"
    by (rule url_for_same) (simp_all add: c5_def logger_def)
  have h5: "headers t c5 = headers t c"
    by (simp add: headers_def c5_def logger_def)
  have f5: "username c5 = username c" "domain c5 = domain c"
    by (simp_all add: c5_def logger_def)
  have rq5: "check = \<lparr>method_arg = ''GET'', url_arg = url_for c5 ''store/websites'' None,
        json_arg = None, headers_arg = headers t c5\<rparr>"
    by (simp add: check u5 h5)
  have s5: "sent c5 @ [check] = sent c @ [login, check]"
    by (simp add: c5_def logger_def)
  have "request (Suc (Suc n)) srv c5 ''GET'' (url_for c5 ''store/websites'' None) None
      = Some (Inr (srv (sent c @ [login, check])),
          logger (Request_failed (url_for c5 ''store/websites'' None)
              (status_code (srv (sent c @ [login, check]))))
            (c5\<lparr>sent := sent c5 @ [check]\<rparr>))"
    unfolding request_first_exchange [where srv = srv and c = c5 and t = t and m = "''GET''"
        and ?method0.0 = "''GET''" and ?payload0.0 = None
        and ?url0.0 = "url_for c5 ''store/websites'' None" and rq = check and n = n,
        OF tok5 t(2) upper_methods(1) [symmetric] disjI1 [OF refl] rq5 refl refl]
    using rejected by (simp add: s5)
  then have v: "validate (Suc (Suc (Suc n))) srv c5
      = Some (Inl (AuthenticationError
           (Some (''Token validation failed for '' @ str (username c) @ '' on '' @ domain c))
           (Some (srv (sent c @ [login, check])))),
         logger (Request_failed (url_for c ''store/websites'' None)
              (status_code (srv (sent c @ [login, check]))))
            (c5\<lparr>sent := sent c @ [login, check]\<rparr>))"
    unfolding validate.simps(2) [of "Suc (Suc n)"]
    using rejected by (simp add: u5 s5 f5 logger_def)
  from creds have nocreds: "(password c = None \<and> api_key c = None) = False"
    by auto
  have a: "authenticate (Suc (Suc (Suc (Suc n)))) srv c
      = (case validate (Suc (Suc (Suc n))) srv c5 of
                  None \<Rightarrow> None
                | Some (Inl e, c5) \<Rightarrow>
                    (case e of
                       AuthenticationError m r \<Rightarrow>
                         Some (Inl (AuthenticationError (Some ''Token validation failed'') None), c5)
                     | _ \<Rightarrow> Some (Inl e, c5))
                | Some (Inr v, c5) \<Rightarrow>
                    Some (Inr True,
                      (logger (Authenticated_successfully (domain c5)) c5)
                        \<lparr>authentication_retries := 0\<rparr>))"
    unfolding authenticate.simps(2) [of "Suc (Suc (Suc n))"] c5_def login t
    using gate pw accepted [unfolded login]
    by (simp add: nocreds Let_def transport_def logger_def url_for_retries USER_CREDENTIALS_retries)
  have res: "authenticate (Suc (Suc (Suc (Suc n)))) srv c
           = Some (Inl (AuthenticationError (Some ''Token validation failed'') None), c')"
    unfolding a v by (simp add: c' c5_def logger_def)
  have stored: "ACCESS_TOKEN c' = Present t"
    by (simp add: c')
  have "token (Suc k) srv c' = Some (Inr t, c')"
    using stored t(2) by (rule token_stored)
  with res stored show ?thesis by (simp add: c')
qed

theorem authenticate_validation_rejected_witness:
  "authentication_retries sample_client \<noteq> 3
   \<and> authentication_method sample_client = PASSWORD
   \<and> ok (scripted [\<lparr>status_code = 200, json = Some ''tok''\<rparr>, \<lparr>status_code = 403, json = None\<rparr>]
         (sent sample_client @ [sample_login]))
   \<and> truthy (Some ''tok'')
   \<and> status_code
        (scripted [\<lparr>status_code = 200, json = Some ''tok''\<rparr>, \<lparr>status_code = 403, json = None\<rparr>]
          (sent sample_client
            @ [sample_login, sample_get ''tok'' ''https://domain.com/rest/V1/store/websites''])) = 403
   \<and> authenticate (Suc (Suc (Suc (Suc 0))))
        (scripted [\<lparr>status_code = 200, json = Some ''tok''\<rparr>, \<lparr>status_code = 403, json = None\<rparr>])
        sample_client
      = Some (Inl (AuthenticationError (Some ''Token validation failed'') None),
          sample_client\<lparr>authentication_retries := 1, ACCESS_TOKEN := Present (Some ''tok''),
            sent := [sample_login, sample_get ''tok'' ''https://domain.com/rest/V1/store/websites''],
            log := [Authenticating (Some ''user'') ''domain.com'', Validating_token,
                    Request_failed ''https://domain.com/rest/V1/store/websites'' 403]\<rparr>)
   \<and> token (Suc 0)
        (scripted [\<lparr>status_code = 200, json = Some ''tok''\<rparr>, \<lparr>status_code = 403, json = None\<rparr>])
        (sample_client\<lparr>authentication_retries := 1, ACCESS_TOKEN := Present (Some ''tok''),
            sent := [sample_login, sample_get ''tok'' ''https://domain.com/rest/V1/store/websites''],
            log := [Authenticating (Some ''user'') ''domain.com'', Validating_token,
                    Request_failed ''https://domain.com/rest/V1/store/websites'' 403]\<rparr>)
      = Some (Inr (Some ''tok''),
          sample_client\<lparr>authentication_retries := 1, ACCESS_TOKEN := Present (Some ''tok''),
            sent := [sample_login, sample_get ''tok'' ''https://domain.com/rest/V1/store/websites''],
            log := [Authenticating (Some ''user'') ''domain.com'', Validating_token,
                    Request_failed ''https://domain.com/rest/V1/store/websites'' 403]\<rparr>)"
proof -
  let ?srv = "scripted [\<lparr>status_code = 200, json = Some ''tok''\<rparr>, \<lparr>status_code = 403, json = None\<rparr>]"
  let ?check = "sample_get ''tok'' ''https://domain.com/rest/V1/store/websites''"
  let ?c' = "sample_client\<lparr>authentication_retries := 1, ACCESS_TOKEN := Present (Some ''tok''),
            sent := [sample_login, ?check],
            log := [Authenticating (Some ''user'') ''domain.com'', Validating_token,
                    Request_failed ''https://domain.com/rest/V1/store/websites'' 403]\<rparr>"
  have gate: "authentication_retries sample_client \<noteq> 3"
    and creds: "password sample_client \<noteq> None \<or> api_key sample_client \<noteq> None"
    and pw: "authentication_method sample_client = PASSWORD"
    by (simp_all add: sample_client_def)
  have login: "sample_login =
      \<lparr>method_arg = ''POST'', url_arg = url_for sample_client ''integration/admin/token'' None,
        json_arg = Some (USER_CREDENTIALS sample_client),
        headers_arg = [(''Content-Type'', ''application/json''),
          (''User-Agent'', user_agent sample_client)]\<rparr>"
    by (simp add: sample_login_def url_for_def USER_CREDENTIALS_def sample_client_def truthy_def)
  have accepted: "ok (?srv (sent sample_client @ [sample_login]))"
    and t: "Some ''tok'' = json (?srv (sent sample_client @ [sample_login]))" "truthy (Some ''tok'')"
    by (simp_all add: ok_def scripted_def sample_client_def truthy_def)
  have check: "?check =
      \<lparr>method_arg = ''GET'', url_arg = url_for sample_client ''store/websites'' None,
        json_arg = None, headers_arg = headers (Some ''tok'') sample_client\<rparr>"
    by (simp add: sample_get_def url_for_def headers_def str_def sample_client_def truthy_def)
  have st: "status_code (?srv (sent sample_client @ [sample_login, ?check])) = 403"
    by (simp add: scripted_def sample_client_def)
  then have rejected: "status_code (?srv (sent sample_client @ [sample_login, ?check])) \<noteq> 200"
      "status_code (?srv (sent sample_client @ [sample_login, ?check])) \<noteq> 401"
    by simp_all
  have c': "?c' = sample_client\<lparr>authentication_retries := authentication_retries sample_client + 1,
        ACCESS_TOKEN := Present (Some ''tok''),
        sent := sent sample_client @ [sample_login, ?check],
        log := log sample_client @ [Authenticating (username sample_client) (domain sample_client),
          Validating_token,
          Request_failed (url_for sample_client ''store/websites'' None)
            (status_code (?srv (sent sample_client @ [sample_login, ?check])))]\<rparr>"
    unfolding st by (simp add: sample_client_def url_for_def truthy_def)
  note inst = authenticate_validation_rejected [where c = sample_client and srv = ?srv
      and login = sample_login and t = "Some ''tok''" and check = ?check and c' = ?c'
      and n = 0 and k = 0, OF gate creds pw login accepted t check rejected c']
  from inst gate pw accepted t(2) st show ?thesis by blast
qed

text \<open>
  Claim C3, as the spec states it, fails: after a login answered 200 and a validation
  answered 403, \<^verbatim>\<open>authenticate\<close> raises \<^verbatim>\<open>AuthenticationError\<close> and the token is
  still stored and handed out for the next request.
\<close>

theorem validation_failure_keeps_token_counterexample:
  "(case authenticate (Suc (Suc (Suc (Suc 0))))
          (scripted [\<lparr>status_code = 200, json = Some ''tok''\<rparr>, \<lparr>status_code = 403, json = None\<rparr>])
          sample_client of
      Some (Inl (AuthenticationError msg resp), c') \<Rightarrow>
        ACCESS_TOKEN c' = Present (Some ''tok'')
        \<and> token (Suc 0)
            (scripted [\<lparr>status_code = 200, json = Some ''tok''\<rparr>, \<lparr>status_code = 403, json = None\<rparr>])
            c' = Some (Inr (Some ''tok''), c')
    | _ \<Rightarrow> False)"
  by (simp add: run_defs)

end
